theory Spec2Isabelle
  imports Main "HOL-Library.List_Lexorder" "HOL-Library.Char_ord"
begin

section \<open>Strings and ordered maps\<close>

text \<open>
  A \<open>std::string\<close> is a \<^typ>\<open>string\<close>; positions are \<open>size_t\<close> values, modelled as
  natural numbers with \<open>std::string::npos\<close> the largest 64-bit value.  \<open>string_find\<close> is
  \<open>std::string::find(needle, pos)\<close> and \<open>substr\<close> is \<open>std::string::substr(pos, n)\<close>.
\<close>

definition npos :: nat where
  "npos = 18446744073709551615"

fun starts_with :: "string \<Rightarrow> string \<Rightarrow> bool" where
  "starts_with s [] = True"
| "starts_with [] (n # ns) = False"
| "starts_with (c # cs) (n # ns) = (c = n \<and> starts_with cs ns)"

fun find_first :: "string \<Rightarrow> string \<Rightarrow> nat option" where
  "find_first [] needle = (if needle = [] then Some 0 else None)"
| "find_first (c # cs) needle =
     (if starts_with (c # cs) needle then Some 0
      else (case find_first cs needle of None \<Rightarrow> None | Some i \<Rightarrow> Some (Suc i)))"

definition string_find :: "string \<Rightarrow> string \<Rightarrow> nat \<Rightarrow> nat" where
  "string_find s needle pos =
     (if length s < pos then npos
      else (case find_first (drop pos s) needle of None \<Rightarrow> npos | Some i \<Rightarrow> pos + i))"

definition substr :: "string \<Rightarrow> nat \<Rightarrow> nat \<Rightarrow> string" where
  "substr s pos n = take n (drop pos s)"

definition tolower_char :: "char \<Rightarrow> char" where
  "tolower_char c =
     (case map_of (zip ''ABCDEFGHIJKLMNOPQRSTUVWXYZ'' ''abcdefghijklmnopqrstuvwxyz'') c of
        Some l \<Rightarrow> l
      | None \<Rightarrow> c)"

definition ToLower :: "string \<Rightarrow> string" where
  "ToLower str = map tolower_char str"

fun to_string :: "nat \<Rightarrow> string" where
  "to_string n =
     (if n < 10 then [''0123456789'' ! n]
      else to_string (n div 10) @ [''0123456789'' ! (n mod 10)])"

declare to_string.simps [simp del]

text \<open>\<open>fs::path(p).filename()\<close> on Windows: the part after the last separator.\<close>

definition is_separator :: "char \<Rightarrow> bool" where
  "is_separator c = (c = CHR 0x5C \<or> c = CHR ''/'')"

definition filename :: "string \<Rightarrow> string" where
  "filename p = rev (takeWhile (\<lambda>c. \<not> is_separator c) (rev p))"

text \<open>
  A \<open>std::map\<close> keeps its entries ordered by key; it is an association list kept in
  ascending key order.  \<open>map_put\<close> is \<open>m[k] = v\<close>, \<^const>\<open>map_of\<close> is \<open>m.find(k)\<close>
  and \<open>map_erase\<close> is \<open>m.erase(k)\<close>.
\<close>

fun map_put :: "'k::linorder \<Rightarrow> 'v \<Rightarrow> ('k \<times> 'v) list \<Rightarrow> ('k \<times> 'v) list" where
  "map_put k v [] = [(k, v)]"
| "map_put k v ((k', v') # m) =
     (if k < k' then (k, v) # (k', v') # m
      else if k = k' then (k, v) # m
      else (k', v') # map_put k v m)"

definition map_erase :: "'k \<Rightarrow> ('k \<times> 'v) list \<Rightarrow> ('k \<times> 'v) list" where
  "map_erase k m = filter (\<lambda>e. fst e \<noteq> k) m"

section \<open>Policy rules and the content classifier\<close>

record PolicyRule =
  policyId :: string
  name :: string
  policyType :: string
  action :: string
  dataTypes :: "string list"
  fileExtensions :: "string list"
  monitoredPaths :: "string list"
  monitoredEvents :: "string list"
  minMatchCount :: int
  enabled :: bool
  quarantinePath :: string

text \<open>
  \<open>ClassificationResult\<close>.  The score is 0.0 or 0.9 in the source and is kept in tenths.
\<close>

record ClassificationResult =
  labels :: "string list"
  severity :: string
  score :: nat
  detection_method :: string
  matchedPolicies :: "string list"
  suggestedAction :: string
  detectedContent :: "(string \<times> string list) list"

definition empty_result :: ClassificationResult where
  "empty_result =
     \<lparr>labels = [], severity = [], score = 0, detection_method = [], matchedPolicies = [],
      suggestedAction = [], detectedContent = []\<rparr>"

text \<open>
  \<open>ContentClassifier::ExtractDataType\<close> runs \<open>std::regex\<close> patterns over the content.  The
  classifier and everything built on it take the detector as an argument \<open>ex\<close>
  (content and data-type name to the list of detected values), so that the results hold
  for every detector.  For the examples, \<open>ExtractDataType_ssn\<close> is the branch of
  \<open>ExtractDataType\<close> for the data types \<open>ssn\<close> and \<open>social_security\<close>: the non-overlapping
  matches of \<open>\b\d{3}-\d{2}-\d{4}\b\<close> from left to right, at most ten.
\<close>

type_synonym detector = "string \<Rightarrow> string \<Rightarrow> string list"

definition is_digit :: "char \<Rightarrow> bool" where
  "is_digit c = (CHR ''0'' \<le> c \<and> c \<le> CHR ''9'')"

definition is_word_char :: "char \<Rightarrow> bool" where
  "is_word_char c =
     (is_digit c \<or> (CHR ''a'' \<le> c \<and> c \<le> CHR ''z'') \<or> (CHR ''A'' \<le> c \<and> c \<le> CHR ''Z'')
      \<or> c = CHR ''_'')"

fun ssn_here :: "string \<Rightarrow> bool" where
  "ssn_here (a # b # c # d # e # f # g # h # i # j # k # rest) =
     (is_digit a \<and> is_digit b \<and> is_digit c \<and> d = CHR ''-'' \<and> is_digit e \<and> is_digit f
      \<and> g = CHR ''-'' \<and> is_digit h \<and> is_digit i \<and> is_digit j \<and> is_digit k
      \<and> (case rest of [] \<Rightarrow> True | r # _ \<Rightarrow> \<not> is_word_char r))"
| "ssn_here _ = False"

function scan_ssn :: "bool \<Rightarrow> string \<Rightarrow> string list" where
  "scan_ssn prev_word [] = []"
| "scan_ssn prev_word (c # cs) =
     (if \<not> prev_word \<and> ssn_here (c # cs)
      then take 11 (c # cs) # scan_ssn True (drop 10 cs)
      else scan_ssn (is_word_char c) cs)"
  by pat_completeness auto
termination
  by (relation "measure (\<lambda>(p, s). length s)") auto

definition ExtractDataType_ssn :: detector where
  "ExtractDataType_ssn content dataType =
     (let lowerType = ToLower dataType;
          mappedType = (if lowerType = ''ssn'' \<or> lowerType = ''social_security''
                        then ''ssn'' else lowerType)
      in if mappedType = ''ssn'' then take 10 (scan_ssn False content) else [])"

text \<open>The inner loop of \<open>Classify\<close> over the data types of one policy.\<close>

definition check_dataType ::
  "detector \<Rightarrow> string \<Rightarrow> int \<times> string list \<times> (string \<times> string list) list \<Rightarrow> string
   \<Rightarrow> int \<times> string list \<times> (string \<times> string list) list" where
  "check_dataType ex content acc dataType =
     (case acc of (matchCount, matchedTypes, dc) \<Rightarrow>
        (let detectedValues = ex content dataType
         in if detectedValues \<noteq> []
            then (matchCount + 1, matchedTypes @ [dataType], map_put dataType detectedValues dc)
            else (matchCount, matchedTypes, dc)))"

definition monitorsThisEvent :: "string \<Rightarrow> string list \<Rightarrow> bool" where
  "monitorsThisEvent eventType evs =
     list_ex (\<lambda>monitoredEvent. eventType = monitoredEvent \<or> monitoredEvent = ''all''
                \<or> monitoredEvent = ''*'' \<or> monitoredEvent = ''clipboard'') evs"

definition apply_action :: "PolicyRule \<Rightarrow> ClassificationResult \<Rightarrow> ClassificationResult" where
  "apply_action policy result =
     (if action policy = ''block'' \<or> action policy = ''quarantine''
      then result\<lparr>severity := ''critical'', suggestedAction := action policy\<rparr>
      else if action policy = ''alert'' \<and> severity result \<noteq> ''critical''
      then result\<lparr>severity := ''high'', suggestedAction := ''alerted''\<rparr>
      else result)"

definition classify_policy ::
  "detector \<Rightarrow> string \<Rightarrow> string \<Rightarrow> ClassificationResult \<Rightarrow> PolicyRule \<Rightarrow> ClassificationResult" where
  "classify_policy ex content eventType result policy =
     (if \<not> enabled policy then result
      else if eventType \<noteq> [] \<and> monitoredEvents policy \<noteq> []
              \<and> \<not> monitorsThisEvent eventType (monitoredEvents policy) then result
      else (case foldl (check_dataType ex content) (0, [], detectedContent result) (dataTypes policy) of
              (matchCount, matchedTypes, dc) \<Rightarrow>
                (let result = result\<lparr>detectedContent := dc\<rparr>
                 in if minMatchCount policy \<le> matchCount \<and> 0 < matchCount
                    then (apply_action policy
                            (result\<lparr>matchedPolicies := matchedPolicies result @ [policyId policy],
                                    labels := labels result @ matchedTypes\<rparr>))\<lparr>score := 9\<rparr>
                    else result)))"

definition Classify :: "detector \<Rightarrow> string \<Rightarrow> PolicyRule list \<Rightarrow> string \<Rightarrow> ClassificationResult" where
  "Classify ex content policies eventType =
     (let result = empty_result\<lparr>severity := ''low'', score := 0, detection_method := ''regex'',
                                suggestedAction := ''logged''\<rparr>
      in if policies = [] then result
         else foldl (classify_policy ex content eventType) result policies)"

section \<open>The world outside the agent\<close>

text \<open>
  The file system, the clocks and the operating-system answers the agent reads.  \<open>files\<close> maps
  the path of every regular file to its bytes, \<open>dirs\<close> is the set of existing directories
  and \<open>denied\<close> the set of paths on which opening, renaming, removing or creating fails
  (a lock or missing rights).  An operation that throws or fails to open returns \<open>None\<close>.
  \<open>steady_now\<close> is \<open>steady_clock::now()\<close> in milliseconds, \<open>system_now\<close> the tick count of
  \<open>system_clock::now()\<close>.
\<close>

record world =
  files :: "(string \<times> string) list"
  dirs :: "string set"
  denied :: "string set"
  removable :: "string list"
  accessible :: "string set"
  eject_ok :: "string set"
  registry_ok :: bool
  disable_ok :: bool
  expand_env :: "string \<Rightarrow> string"
  friendly_name :: "string \<Rightarrow> string"
  steady_now :: nat
  system_now :: nat

definition bslash :: string where
  "bslash = [CHR 0x5C]"

definition fs_lookup :: "world \<Rightarrow> string \<Rightarrow> string option" where
  "fs_lookup w p = map_of (files w) p"

definition is_regular_file :: "world \<Rightarrow> string \<Rightarrow> bool" where
  "is_regular_file w p = (fs_lookup w p \<noteq> None)"

definition fs_exists :: "world \<Rightarrow> string \<Rightarrow> bool" where
  "fs_exists w p = (is_regular_file w p \<or> p \<in> dirs w)"

definition can_open :: "world \<Rightarrow> string \<Rightarrow> bool" where
  "can_open w p = (p \<notin> denied w \<union> dirs w)"

text \<open>
  \<open>fs::path::parent_path\<close>: the path without its last component; the separator of a root
  such as \<open>E:\<close> stays.  A file can be created, renamed or copied to a path only inside
  an existing directory; directories are compared up to trailing separators, and the
  empty parent of a bare file name is the current directory.
\<close>

definition strip_separators :: "string \<Rightarrow> string" where
  "strip_separators p =
     (let q = rev (dropWhile is_separator (rev p))
      in if length q < length p \<and> (q = [] \<or> last q = CHR '':'') then q @ bslash else q)"

definition parent_path :: "string \<Rightarrow> string" where
  "parent_path p = strip_separators (rev (dropWhile (\<lambda>c. \<not> is_separator c) (rev p)))"

definition is_directory :: "world \<Rightarrow> string \<Rightarrow> bool" where
  "is_directory w d = (d = [] \<or> strip_separators d \<in> strip_separators ` dirs w)"

definition can_create :: "world \<Rightarrow> string \<Rightarrow> bool" where
  "can_create w p = (can_open w p \<and> is_directory w (parent_path p))"

text \<open>\<open>std::ofstream out(p, binary | trunc); out.write(c); out.close()\<close>\<close>

definition fs_write :: "string \<Rightarrow> string \<Rightarrow> world \<Rightarrow> world option" where
  "fs_write p c w = (if can_create w p then Some (w\<lparr>files := map_put p c (files w)\<rparr>) else None)"

definition fs_rename :: "string \<Rightarrow> string \<Rightarrow> world \<Rightarrow> world option" where
  "fs_rename src dst w =
     (case fs_lookup w src of
        None \<Rightarrow> None
      | Some c \<Rightarrow>
          if can_open w src \<and> can_create w dst
          then Some (w\<lparr>files := map_put dst c (map_erase src (files w))\<rparr>)
          else None)"

definition fs_remove :: "string \<Rightarrow> world \<Rightarrow> world option" where
  "fs_remove p w = (if p \<in> denied w then None else Some (w\<lparr>files := map_erase p (files w)\<rparr>))"

definition fs_copy_file :: "string \<Rightarrow> string \<Rightarrow> world \<Rightarrow> world option" where
  "fs_copy_file src dst w =
     (case fs_lookup w src of
        None \<Rightarrow> None
      | Some c \<Rightarrow>
          if can_open w src \<and> can_create w dst
          then Some (w\<lparr>files := map_put dst c (files w)\<rparr>)
          else None)"

definition create_directories :: "string \<Rightarrow> world \<Rightarrow> world option" where
  "create_directories d w =
     (if d \<in> denied w \<or> is_regular_file w d then None else Some (w\<lparr>dirs := insert d (dirs w)\<rparr>))"

definition file_size :: "world \<Rightarrow> string \<Rightarrow> nat option" where
  "file_size w p = (case fs_lookup w p of None \<Rightarrow> None | Some c \<Rightarrow> Some (length c))"

definition ReadFileContent :: "world \<Rightarrow> string \<Rightarrow> string" where
  "ReadFileContent w filePath =
     (case fs_lookup w filePath of
        None \<Rightarrow> []
      | Some c \<Rightarrow> if filePath \<in> denied w then [] else take 100000 c)"

definition NormalizeFilesystemPath :: "world \<Rightarrow> string \<Rightarrow> string" where
  "NormalizeFilesystemPath w path =
     map (\<lambda>c. if c = CHR ''/'' then CHR 0x5C else c) (expand_env w path)"

section \<open>Event envelopes, scheduled threads and the agent\<close>

text \<open>
  An envelope is the list of fields that \<open>JsonBuilder\<close> collects.  The fields made up at
  send time (event id, agent id, user, hash, time stamp) are left out.
\<close>

datatype json = JStr string | JInt int | JBool bool | JArr "string list"

text \<open>\<open>static_cast<int>\<close> of a \<open>size_t\<close>, and the line break of a description.\<close>

definition static_cast_int :: "nat \<Rightarrow> int" where
  "static_cast_int n = (int n + 2147483648) mod 4294967296 - 2147483648"

definition newline :: string where
  "newline = [CHR 0x0A]"

type_synonym envelope = "(string \<times> json) list"

text \<open>
  A detached thread that sleeps and then works: the restore of a quarantined file
  (create/modify and delete flavours), the end of the grace period, and the restore of a
  file quarantined by the USB transfer monitor.
\<close>

datatype task =
    RestoreModified string string
  | RestoreDeleted string string string
  | GraceCleanup string
  | RestoreUsb string string string string string

datatype blocker_call = RegistryBlock bool | DisableAllDevices | EnableAllDevices | EjectDrive string

record FileMetadata =
  m_name :: string
  relativePath :: string
  inMonitored :: bool
  fullPath :: string
  fileSize :: nat

record USBFileTransferPolicy =
  t_policyId :: string
  t_name :: string
  t_action :: string
  t_severity :: string
  t_monitoredPaths :: "string list"
  t_quarantinePath :: string
  t_enabled :: bool

record agent =
  allowEvents :: bool
  hasFilePolices :: bool
  hasClipboardPolicies :: bool
  hasUsbDevicePolicies :: bool
  hasUsbTransferPolicies :: bool
  usbBlockingActive :: bool
  activePolicyVersion :: string
  monitoredDirectories :: "string list"
  recentEvents :: "string \<times> string \<Rightarrow> nat option"
  filePolicies :: "PolicyRule list"
  clipboardPolicies :: "PolicyRule list"
  usbPolicies :: "PolicyRule list"
  filesBeingQuarantined :: "string set"
  recentlyRestored :: "string set"
  originalFileContents :: "(string \<times> string) list"
  usbDriveToDeviceId :: "(string \<times> string) list"
  monitoredFiles :: "(string \<times> FileMetadata) list"
  shadowCopies :: "(string \<times> string \<times> nat) list"
  currentUSBFileState :: "string \<Rightarrow> bool option"
  quarantinedUSBFiles :: "string set"
  usbTransferPolicies :: "USBFileTransferPolicy list"
  knownUSBDrives :: "string set"
  world :: world
  sent :: "envelope list"
  pending :: "(nat \<times> task) list"
  blocker_log :: "blocker_call list"

text \<open>The configuration never changes these two values.\<close>

definition quarantine_folder :: string where
  "quarantine_folder = ''C:'' @ bslash @ ''Quarantine''"

definition maxFileSizeMB :: nat where
  "maxFileSizeMB = 10"

definition SendEvent :: "envelope \<Rightarrow> agent \<Rightarrow> agent" where
  "SendEvent eventData s = (if \<not> allowEvents s then s else s\<lparr>sent := sent s @ [eventData]\<rparr>)"

definition schedule :: "nat \<Rightarrow> task \<Rightarrow> agent \<Rightarrow> agent" where
  "schedule delay t s = s\<lparr>pending := pending s @ [(steady_now (world s) + delay, t)]\<rparr>"

section \<open>The file monitor: \<open>HandleFileEvent\<close>\<close>

definition pathMatches :: "world \<Rightarrow> string \<Rightarrow> PolicyRule \<Rightarrow> bool" where
  "pathMatches w filePath policy =
     list_ex (\<lambda>policyPath. string_find filePath (NormalizeFilesystemPath w policyPath) 0 = 0)
       (monitoredPaths policy)"

definition eventMatches :: "string \<Rightarrow> PolicyRule \<Rightarrow> bool" where
  "eventMatches eventSubtype policy =
     (if monitoredEvents policy = []
      then (dataTypes policy \<noteq> [] \<or> monitoredPaths policy \<noteq> [] \<or> fileExtensions policy \<noteq> [])
      else list_ex (\<lambda>monitoredEvent. eventSubtype = monitoredEvent \<or> monitoredEvent = ''all''
                      \<or> monitoredEvent = ''*'') (monitoredEvents policy))"

definition relevantPolicies :: "world \<Rightarrow> string \<Rightarrow> string \<Rightarrow> PolicyRule list \<Rightarrow> PolicyRule list" where
  "relevantPolicies w filePath eventSubtype policies =
     filter (\<lambda>policy. pathMatches w filePath policy \<and> eventMatches eventSubtype policy) policies"

definition is_duplicate :: "agent \<Rightarrow> string \<times> string \<Rightarrow> bool" where
  "is_duplicate s eventKey =
     (case recentEvents s eventKey of
        None \<Rightarrow> False
      | Some t \<Rightarrow> (steady_now (world s) - t) div 1000 < 2)"

text \<open>
  A deletion that the rules monitor but whose content gave no classification is forced
  to a quarantine request, with every relevant policy as matched.
\<close>

definition force_deletion :: "PolicyRule list \<Rightarrow> ClassificationResult \<Rightarrow> ClassificationResult" where
  "force_deletion relevant c =
     foldl (\<lambda>c policy.
              (if action policy = ''quarantine'' \<or> action policy = ''block''
               then c\<lparr>suggestedAction := ''quarantine'', severity := ''critical''\<rparr> else c)
              \<lparr>matchedPolicies := matchedPolicies c @ [policyId policy]\<rparr>)
       (c\<lparr>severity := ''high'', suggestedAction := ''quarantine'',
          labels := labels c @ [''MONITORED_DELETION'']\<rparr>)
       relevant"

text \<open>
  Reading and classifying: the stored original for a deletion, the file itself
  otherwise.  The result is the agent (the baseline is stored here on \<open>file_created\<close>),
  the file size, the content and the classification.
\<close>

definition classify_deleted ::
  "detector \<Rightarrow> string \<Rightarrow> string \<Rightarrow> PolicyRule list \<Rightarrow> agent
   \<Rightarrow> agent \<times> nat \<times> string \<times> ClassificationResult" where
  "classify_deleted ex filePath eventSubtype relevant s =
     (let (content, classification) =
            (case map_of (originalFileContents s) filePath of
               Some c \<Rightarrow> (c, Classify ex c relevant eventSubtype)
             | None \<Rightarrow> ([], empty_result));
          classification =
            (if labels classification = [] \<and> matchedPolicies classification = []
             then force_deletion relevant classification else classification)
      in (s, length content, content, classification))"

definition classify_existing ::
  "detector \<Rightarrow> string \<Rightarrow> string \<Rightarrow> PolicyRule list \<Rightarrow> agent
   \<Rightarrow> agent \<times> nat \<times> string \<times> ClassificationResult" where
  "classify_existing ex filePath eventSubtype relevant s =
     (case file_size (world s) filePath of
        None \<Rightarrow> (s, 0, [], empty_result\<lparr>severity := ''low'', suggestedAction := ''logged''\<rparr>)
      | Some fsize \<Rightarrow>
          if fsize < maxFileSizeMB * 1024 * 1024
          then (if filePath \<in> denied (world s)
                then (s, fsize, [], empty_result\<lparr>severity := ''low'', suggestedAction := ''logged''\<rparr>)
                else (let content = ReadFileContent (world s) filePath;
                          s1 = (if eventSubtype = ''file_created''
                                then s\<lparr>originalFileContents :=
                                         map_put filePath content (originalFileContents s)\<rparr>
                                else s)
                      in (s1, fsize, content, Classify ex content relevant eventSubtype)))
          else (s, fsize, [],
                empty_result\<lparr>severity := ''low'', labels := [''LARGE_FILE''],
                              suggestedAction := ''logged''\<rparr>))"

text \<open>The detected-content summary with the list of detected types and the match total.\<close>

definition shouldRedact :: "string \<Rightarrow> bool" where
  "shouldRedact dataType =
     (let lowerType = ToLower dataType
      in list_ex (\<lambda>w. string_find lowerType w 0 < npos)
           [''password'', ''api_key'', ''secret'', ''token'', ''private_key''])"

definition show_value :: "bool \<Rightarrow> string \<Rightarrow> string" where
  "show_value redact v =
     (if redact then ''[REDACTED]''
      else if 40 < length v then substr v 0 37 @ ''...'' else v)"

fun join_values :: "string list \<Rightarrow> string" where
  "join_values [] = []"
| "join_values [v] = v"
| "join_values (v # vs) = v @ '', '' @ join_values vs"

definition summary_entry :: "string \<Rightarrow> string list \<Rightarrow> string" where
  "summary_entry dataType vals =
     [CHR 0x0A] @ ''   '' @ dataType @ '': '' @ to_string (length vals) @ '' found'' @ [CHR 0x0A]
     @ ''    Values: '' @ join_values (map (show_value (shouldRedact dataType)) (take 3 vals))
     @ (if 3 < length vals then '' ... (+'' @ to_string (length vals - 3) @ '' more)'' else [])
     @ [CHR 0x0A]"

definition detected_summary ::
  "(string \<times> string list) list \<Rightarrow> string \<times> string list \<times> nat" where
  "detected_summary dc =
     foldl (\<lambda>(detectedSummary, detectedTypes, totalMatches) (dataType, vals).
              if vals = [] then (detectedSummary, detectedTypes, totalMatches)
              else (detectedSummary @ summary_entry dataType vals, detectedTypes @ [dataType],
                    totalMatches + length vals))
       ([], [], 0) dc"

definition quarantine_path :: "world \<Rightarrow> string \<Rightarrow> string" where
  "quarantine_path w fileName = quarantine_folder @ bslash @ to_string (system_now w) @ ''_'' @ fileName"

definition ensure_quarantine_folder :: "world \<Rightarrow> world option" where
  "ensure_quarantine_folder w =
     (if fs_exists w quarantine_folder then Some w else create_directories quarantine_folder w)"

text \<open>
  Quarantine on create or modify: mark the path, rename the file into the quarantine
  folder and start the restore thread (ten minutes).  Any exception clears the mark.
  The second component is \<open>detectedAction\<close>.
\<close>

definition normal_quarantine :: "string \<Rightarrow> agent \<Rightarrow> agent \<times> string" where
  "normal_quarantine filePath s =
     (let s1 = s\<lparr>filesBeingQuarantined := insert filePath (filesBeingQuarantined s)\<rparr>;
          unmark = (\<lambda>t. t\<lparr>filesBeingQuarantined := filesBeingQuarantined t - {filePath}\<rparr>);
          quarantinePath = quarantine_path (world s) (filename filePath)
      in case ensure_quarantine_folder (world s1) of
           None \<Rightarrow> (unmark s1, ''quarantine'')
         | Some w1 \<Rightarrow>
             (case fs_rename filePath quarantinePath w1 of
                None \<Rightarrow> (unmark (s1\<lparr>world := w1\<rparr>), ''quarantine'')
              | Some w2 \<Rightarrow>
                  (schedule 600000 (RestoreModified quarantinePath filePath) (s1\<lparr>world := w2\<rparr>),
                   ''quarantined'')))"

text \<open>
  Quarantine on delete: the stored original is written into the quarantine folder and the
  restore thread gets a copy of it.
\<close>

definition deletion_quarantine :: "string \<Rightarrow> agent \<Rightarrow> agent \<times> string" where
  "deletion_quarantine filePath s =
     (case map_of (originalFileContents s) filePath of
        None \<Rightarrow> (s, ''quarantine'')
      | Some originalContent \<Rightarrow>
          if originalContent = [] then (s, ''quarantine'')
          else
            (let s1 = s\<lparr>filesBeingQuarantined := insert filePath (filesBeingQuarantined s)\<rparr>;
                 unmark = (\<lambda>t. t\<lparr>filesBeingQuarantined := filesBeingQuarantined t - {filePath}\<rparr>);
                 quarantinePath = quarantine_path (world s) (filename filePath)
             in case ensure_quarantine_folder (world s1) of
                  None \<Rightarrow> (unmark s1, ''quarantine'')
                | Some w1 \<Rightarrow>
                    (case fs_write quarantinePath originalContent w1 of
                       None \<Rightarrow> (unmark (s1\<lparr>world := w1\<rparr>), ''quarantine'')
                     | Some w2 \<Rightarrow>
                         (schedule 600000 (RestoreDeleted quarantinePath filePath originalContent)
                            (s1\<lparr>world := w2\<rparr>),
                          ''quarantined_on_delete''))))"

text \<open>
  The enforcement chain.  \<open>None\<close> is the early return without an event; otherwise the
  agent after enforcement and the action to report.
\<close>

definition enforce ::
  "string \<Rightarrow> string \<Rightarrow> ClassificationResult \<Rightarrow> agent \<Rightarrow> (agent \<times> string) option" where
  "enforce filePath eventSubtype classification s =
     (let detectedAction = suggestedAction classification;
          shouldEnforceAction = (matchedPolicies classification \<noteq> []);
          isDeleteEvent = (eventSubtype = ''file_deleted'')
      in if detectedAction = ''quarantine'' \<and> shouldEnforceAction
         then (if filePath \<in> recentlyRestored s then Some (s, ''logged'')
               else if isDeleteEvent then Some (deletion_quarantine filePath s)
               else Some (normal_quarantine filePath s))
         else if detectedAction = ''quarantine'' then Some (s, ''logged'')
         else if detectedAction = ''block'' \<and> shouldEnforceAction
         then (case fs_remove filePath (world s) of
                 None \<Rightarrow> Some (s, ''block'')
               | Some w1 \<Rightarrow> Some (s\<lparr>world := w1\<rparr>, ''deleted''))
         else if detectedAction = ''block'' then Some (s, ''logged'')
         else if labels classification = [] then None
         else Some (s, ''logged''))"

definition file_envelope ::
  "string \<Rightarrow> string \<Rightarrow> string \<Rightarrow> nat \<Rightarrow> ClassificationResult \<Rightarrow> string \<Rightarrow> envelope" where
  "file_envelope filePath eventSubtype act fsize classification detectedAction =
     (case detected_summary (detectedContent classification) of
        (detectedSummary, detectedTypes, totalMatches) \<Rightarrow>
          [(''event_type'', JStr ''file''),
           (''event_subtype'', JStr eventSubtype),
           (''source_type'', JStr ''agent''),
           (''description'', JStr (''File '' @ act @ '': '' @ filename filePath @ '' - '' @ detectedSummary)),
           (''severity'', JStr (severity classification)),
           (''action'', JStr detectedAction),
           (''file_path'', JStr filePath),
           (''file_name'', JStr (filename filePath)),
           (''file_size'', JInt (static_cast_int fsize)),
           (''detected_content'', JStr detectedSummary),
           (''data_types'', JArr detectedTypes),
           (''matched_policies'', JArr (matchedPolicies classification)),
           (''total_matches'', JInt (int totalMatches))])"

text \<open>
  \<open>report_event\<close> is the tail of \<open>HandleFileEvent\<close>: nothing to report, or enforcement
  followed by one event.  \<open>handle_classified\<close> is the skip check before it.
\<close>

definition report_event ::
  "string \<Rightarrow> string \<Rightarrow> string \<Rightarrow> nat \<Rightarrow> ClassificationResult \<Rightarrow> agent \<Rightarrow> agent" where
  "report_event filePath eventSubtype act fsize classification s =
     (case detected_summary (detectedContent classification) of
        (detectedSummary, detectedTypes, totalMatches) \<Rightarrow>
          if detectedSummary = [] \<or> totalMatches = 0 then s
          else (case enforce filePath eventSubtype classification s of
                  None \<Rightarrow> s
                | Some (s1, detectedAction) \<Rightarrow>
                    SendEvent (file_envelope filePath eventSubtype act fsize classification
                                 detectedAction) s1))"

definition handle_classified ::
  "string \<Rightarrow> string \<Rightarrow> string \<Rightarrow> PolicyRule list \<Rightarrow> nat \<Rightarrow> ClassificationResult \<Rightarrow> agent
   \<Rightarrow> agent" where
  "handle_classified filePath eventSubtype act relevant fsize classification s =
     (if labels classification = [] \<and> matchedPolicies classification = []
      then (if eventSubtype = ''file_deleted'' \<and> relevant \<noteq> []
            then report_event filePath eventSubtype act fsize
                   (force_deletion relevant classification) s
            else s)
      else report_event filePath eventSubtype act fsize classification s)"

definition HandleFileEvent :: "detector \<Rightarrow> string \<Rightarrow> string \<Rightarrow> string \<Rightarrow> agent \<Rightarrow> agent" where
  "HandleFileEvent ex filePath eventSubtype act s =
     (if allowEvents s \<and> hasFilePolices s
      then (if filePath \<in> filesBeingQuarantined s then s
            else if eventSubtype = ''file_deleted'' \<or> is_regular_file (world s) filePath
            then (if is_duplicate s (filePath, eventSubtype) then s
                  else (let s1 = s\<lparr>recentEvents :=
                                      (recentEvents s)((filePath, eventSubtype) \<mapsto> steady_now (world s))\<rparr>;
                            relevant = relevantPolicies (world s) filePath eventSubtype (filePolicies s)
                        in if relevant = [] then s1
                           else (case (if eventSubtype = ''file_deleted''
                                       then classify_deleted ex filePath eventSubtype relevant s1
                                       else classify_existing ex filePath eventSubtype relevant s1) of
                                   (s2, fsize, content, classification) \<Rightarrow>
                                     handle_classified filePath eventSubtype act relevant fsize classification s2)))
            else s)
      else s)"

section \<open>The restore threads\<close>

definition start_grace :: "string \<Rightarrow> agent \<Rightarrow> agent" where
  "start_grace filePath s =
     schedule 30000 (GraceCleanup filePath)
       (s\<lparr>recentlyRestored := insert filePath (recentlyRestored s)\<rparr>)"

definition rename_back :: "string \<Rightarrow> string \<Rightarrow> world \<Rightarrow> world option" where
  "rename_back vaultPath filePath w =
     (if fs_exists w vaultPath \<and> \<not> fs_exists w filePath
      then fs_rename vaultPath filePath w else Some w)"

text \<open>
  The body of the restore thread of a create/modify quarantine, after its sleep.  A
  non-empty stored original is written back and the quarantined file deleted; otherwise
  the quarantined file is renamed back.
\<close>

definition restore_modified :: "string \<Rightarrow> string \<Rightarrow> agent \<Rightarrow> agent" where
  "restore_modified vaultPath filePath s =
     (let unmark = (\<lambda>t. t\<lparr>filesBeingQuarantined := filesBeingQuarantined t - {filePath}\<rparr>);
          original = (case map_of (originalFileContents s) filePath of None \<Rightarrow> [] | Some c \<Rightarrow> c)
      in if original = []
         then (case rename_back vaultPath filePath (world s) of
                 None \<Rightarrow> unmark s
               | Some w1 \<Rightarrow> start_grace filePath (s\<lparr>world := w1\<rparr>))
         else (case fs_write filePath original (world s) of
                 None \<Rightarrow>
                   (case rename_back vaultPath filePath (world s) of
                      None \<Rightarrow> unmark s
                    | Some w1 \<Rightarrow> start_grace filePath (s\<lparr>world := w1\<rparr>))
               | Some w1 \<Rightarrow>
                   (let w2 = (if fs_exists w1 vaultPath
                              then (case fs_remove vaultPath w1 of None \<Rightarrow> w1 | Some w \<Rightarrow> w)
                              else w1)
                    in start_grace filePath
                         (s\<lparr>world := w2,
                            originalFileContents := map_erase filePath (originalFileContents s)\<rparr>))))"

definition restore_deleted :: "string \<Rightarrow> string \<Rightarrow> string \<Rightarrow> agent \<Rightarrow> agent" where
  "restore_deleted vaultPath filePath originalContent s =
     (let s1 = s\<lparr>filesBeingQuarantined := insert filePath (filesBeingQuarantined s)\<rparr>;
          unmark = (\<lambda>t. t\<lparr>filesBeingQuarantined := filesBeingQuarantined t - {filePath}\<rparr>)
      in case fs_write filePath originalContent (world s1) of
           None \<Rightarrow> unmark s1
         | Some w1 \<Rightarrow>
             (case (if fs_exists w1 vaultPath then fs_remove vaultPath w1 else Some w1) of
                None \<Rightarrow> unmark (s1\<lparr>world := w1\<rparr>)
              | Some w2 \<Rightarrow>
                  start_grace filePath
                    (s1\<lparr>world := w2,
                        originalFileContents := map_erase filePath (originalFileContents s1)\<rparr>)))"

definition grace_cleanup :: "string \<Rightarrow> agent \<Rightarrow> agent" where
  "grace_cleanup filePath s =
     s\<lparr>filesBeingQuarantined := filesBeingQuarantined s - {filePath},
       recentlyRestored := recentlyRestored s - {filePath}\<rparr>"

section \<open>The policy bundle\<close>

definition dquote :: string where
  "dquote = [CHR 0x22]"

definition isspace :: "char \<Rightarrow> bool" where
  "isspace c = (c \<in> set [CHR 0x20, CHR 0x09, CHR 0x0A, CHR 0x0B, CHR 0x0C, CHR 0x0D])"

text \<open>\<open>p + 1\<close> on a \<open>size_t\<close>: \<open>npos + 1\<close> wraps to 0.\<close>

definition next_pos :: "nat \<Rightarrow> nat" where
  "next_pos p = (p + 1) mod 18446744073709551616"

fun bracket_scan :: "char \<Rightarrow> char \<Rightarrow> string \<Rightarrow> nat \<Rightarrow> nat \<Rightarrow> nat" where
  "bracket_scan opn cls [] depth i = npos"
| "bracket_scan opn cls (c # cs) depth i =
     (if c = opn then bracket_scan opn cls cs (depth + 1) (i + 1)
      else if c = cls
      then (if depth = 1 then i else bracket_scan opn cls cs (depth - 1) (i + 1))
      else bracket_scan opn cls cs depth (i + 1))"

definition FindMatchingBracket :: "string \<Rightarrow> nat \<Rightarrow> char \<Rightarrow> char \<Rightarrow> nat" where
  "FindMatchingBracket str start opn cls =
     (if start < length str \<and> str ! start = opn
      then bracket_scan opn cls (drop (start + 1) str) 1 (start + 1)
      else npos)"

definition ExtractJsonString :: "string \<Rightarrow> string \<Rightarrow> string" where
  "ExtractJsonString json key =
     (let keyPos = string_find json (dquote @ key @ dquote) 0;
          colonPos = string_find json '':'' keyPos;
          quoteStart = string_find json dquote colonPos;
          quoteEnd = string_find json dquote (next_pos quoteStart)
      in if keyPos < npos \<and> colonPos < npos \<and> quoteStart < npos \<and> quoteEnd < npos
         then substr json (quoteStart + 1) (quoteEnd - quoteStart - 1)
         else [])"

definition ExtractJsonBool :: "string \<Rightarrow> string \<Rightarrow> bool" where
  "ExtractJsonBool json key =
     (let keyPos = string_find json (dquote @ key @ dquote) 0;
          colonPos = string_find json '':'' keyPos
      in keyPos < npos \<and> colonPos < npos
         \<and> starts_with (dropWhile isspace (drop (colonPos + 1) json)) ''true'')"

text \<open>
  The element loop of \<open>ExtractJsonArray\<close>, on the rest of the array content: a quoted
  string is an element, anything else is skipped up to the next comma.
\<close>

function array_elements :: "string \<Rightarrow> string list" where
  "array_elements s =
     (case dropWhile isspace s of
        [] \<Rightarrow> []
      | c # cs \<Rightarrow>
          if c = CHR 0x22
          then (let quoteEnd = string_find cs dquote 0
                in if quoteEnd < npos
                   then substr cs 0 quoteEnd
                        # array_elements (dropWhile (\<lambda>c. c = CHR '','' \<or> isspace c)
                                           (drop (quoteEnd + 1) cs))
                   else [])
          else (let commaPos = string_find (c # cs) '','' 0
                in if commaPos < npos
                   then array_elements (dropWhile (\<lambda>c. c = CHR '','' \<or> isspace c)
                                          (drop (commaPos + 1) (c # cs)))
                   else []))"
  by pat_completeness auto
termination
proof (relation "measure length")
  show "wf (measure length)" by simp
next
  fix s :: string and c cs x
  assume d: "dropWhile isspace s = c # cs"
  have le: "length (c # cs) \<le> length s"
    unfolding d [symmetric] by (rule length_dropWhile_le)
  have "length (dropWhile (\<lambda>c. c = CHR '','' \<or> isspace c) (drop (x + 1) cs)) \<le> length cs"
    by (rule order_trans [OF length_dropWhile_le]) simp
  with le show "(dropWhile (\<lambda>c. c = CHR '','' \<or> isspace c) (drop (x + 1) cs), s) \<in> measure length"
    by simp
next
  fix s :: string and c cs x
  assume d: "dropWhile isspace s = c # cs"
  have le: "length (c # cs) \<le> length s"
    unfolding d [symmetric] by (rule length_dropWhile_le)
  have "length (dropWhile (\<lambda>c. c = CHR '','' \<or> isspace c) (drop (x + 1) (c # cs))) \<le> length cs"
    by (rule order_trans [OF length_dropWhile_le]) simp
  with le show "(dropWhile (\<lambda>c. c = CHR '','' \<or> isspace c) (drop (x + 1) (c # cs)), s) \<in> measure length"
    by simp
qed

declare array_elements.simps [simp del]

definition ExtractJsonArray :: "string \<Rightarrow> string \<Rightarrow> string list" where
  "ExtractJsonArray json key =
     (let keyPos = string_find json (dquote @ key @ dquote) 0;
          colonPos = string_find json '':'' keyPos;
          afterColon = dropWhile isspace (drop (colonPos + 1) json)
      in if keyPos < npos \<and> colonPos < npos \<and> starts_with afterColon ''[''
         then (let arrayEnd = string_find afterColon '']'' 0
               in if arrayEnd < npos then array_elements (substr afterColon 1 (arrayEnd - 1))
                  else [])
         else [])"

text \<open>
  The pattern \<open>find key; find "{"; FindMatchingBracket\<close> that cuts a nested object out of
  a JSON text.
\<close>

definition sub_object :: "string \<Rightarrow> string \<Rightarrow> string option" where
  "sub_object json key =
     (let keyPos = string_find json (dquote @ key @ dquote) 0;
          objStart = string_find json ''{'' keyPos;
          objEnd = FindMatchingBracket json objStart (CHR ''{'') (CHR ''}'')
      in if keyPos < npos \<and> objStart < npos \<and> objEnd < npos
         then Some (substr json objStart (objEnd - objStart + 1))
         else None)"

definition usb_events :: "string \<Rightarrow> string list" where
  "usb_events configObj =
     (case sub_object configObj ''events'' of
        None \<Rightarrow> []
      | Some eventsObj \<Rightarrow>
          (if ExtractJsonBool eventsObj ''connect'' then [''usb_connect''] else [])
          @ (if ExtractJsonBool eventsObj ''disconnect'' then [''usb_disconnect''] else [])
          @ (if ExtractJsonBool eventsObj ''fileTransfer'' then [''usb_file_transfer''] else []))"

definition pattern_types :: "string \<Rightarrow> string list" where
  "pattern_types configObj =
     (let fromPatterns =
            (case sub_object configObj ''patterns'' of
               None \<Rightarrow> []
             | Some patternsObj \<Rightarrow>
                 ExtractJsonArray patternsObj ''predefined'' @ ExtractJsonArray patternsObj ''custom'')
      in if fromPatterns = [] then ExtractJsonArray configObj ''dataTypes'' else fromPatterns)"

definition transfer_quarantine_path :: "string \<Rightarrow> string \<Rightarrow> string" where
  "transfer_quarantine_path policyObj configObj =
     (let fromActions =
            (case sub_object policyObj ''actions'' of
               None \<Rightarrow> []
             | Some actionsObj \<Rightarrow>
                 (case sub_object actionsObj ''quarantine'' of
                    None \<Rightarrow> []
                  | Some quarObj \<Rightarrow> ExtractJsonString quarObj ''path''))
      in if fromActions = [] then ExtractJsonString configObj ''quarantinePath'' else fromActions)"

definition ParsePolicyObject :: "string \<Rightarrow> string \<Rightarrow> PolicyRule" where
  "ParsePolicyObject policyObj ptype =
     (let rule = \<lparr>policyId = (if ExtractJsonString policyObj ''id'' = []
                               then ExtractJsonString policyObj ''policy_id''
                               else ExtractJsonString policyObj ''id''),
                   name = ExtractJsonString policyObj ''name'',
                   policyType = ptype, action = [], dataTypes = [], fileExtensions = [],
                   monitoredPaths = [], monitoredEvents = [], minMatchCount = 1,
                   enabled = (let enabledPos = string_find policyObj (dquote @ ''enabled'' @ dquote) 0
                              in npos \<le> enabledPos \<or> npos \<le> string_find policyObj ''false'' enabledPos),
                   quarantinePath = []\<rparr>
      in case sub_object policyObj ''config'' of
           None \<Rightarrow> rule
         | Some configObj \<Rightarrow>
             rule\<lparr>action := (if ExtractJsonString configObj ''action'' = [] then ''alert''
                              else ExtractJsonString configObj ''action''),
                  quarantinePath := (if ptype = ''usb_file_transfer_monitoring''
                                     then transfer_quarantine_path policyObj configObj else []),
                  monitoredPaths := (if ptype = ''usb_file_transfer_monitoring''
                                     then ExtractJsonArray configObj ''monitoredPaths'' else []),
                  monitoredEvents := (if ptype = ''usb_device_monitoring''
                                         \<or> ptype = ''usb_file_transfer_monitoring''
                                      then usb_events configObj else []),
                  dataTypes := (if ptype = ''clipboard_monitoring''
                                   \<or> ptype = ''file_system_monitoring''
                                then pattern_types configObj else [])\<rparr>)"

text \<open>
  The object loop of \<open>ParsePolicyArray\<close>, on the rest of the array content; the
  result is the list of enabled rules in order.
\<close>

function policy_objects :: "string \<Rightarrow> string \<Rightarrow> PolicyRule list" where
  "policy_objects ptype s =
     (let objStart = string_find s ''{'' 0;
          objEnd = FindMatchingBracket s objStart (CHR ''{'') (CHR ''}'')
      in if s \<noteq> [] \<and> objStart < npos \<and> objEnd < npos
         then (let rule = ParsePolicyObject (substr s objStart (objEnd - objStart + 1)) ptype
               in (if enabled rule then [rule] else [])
                  @ policy_objects ptype (drop (objEnd + 1) s))
         else [])"
  by pat_completeness auto
termination
  by (relation "measure (\<lambda>(t, s). length s)") auto

declare policy_objects.simps [simp del]

definition ParsePolicyArray ::
  "string \<Rightarrow> string \<Rightarrow> PolicyRule list \<times> bool \<Rightarrow> PolicyRule list \<times> bool" where
  "ParsePolicyArray bundleJson ptype acc =
     (let typePos = string_find bundleJson (dquote @ ptype @ dquote) 0;
          arrayStart = string_find bundleJson ''['' typePos;
          arrayEnd = FindMatchingBracket bundleJson arrayStart (CHR ''['') (CHR '']'')
      in if typePos < npos \<and> arrayStart < npos \<and> arrayEnd < npos
         then (let arrayContent = substr bundleJson (arrayStart + 1) (arrayEnd - arrayStart - 1);
                   rules = policy_objects ptype arrayContent
               in if list_all isspace arrayContent then acc
                  else (fst acc @ rules, (snd acc \<or> rules \<noteq> [])))
         else acc)"

text \<open>\<open>std::string::rfind(needle, pos)\<close>: the last occurrence starting at or before \<open>pos\<close>.\<close>

definition string_rfind :: "string \<Rightarrow> string \<Rightarrow> nat \<Rightarrow> nat" where
  "string_rfind s needle pos =
     (if length s < length needle then npos
      else (case filter (\<lambda>i. starts_with (drop i s) needle)
                  (rev [0..<Suc (min pos (length s - length needle))]) of
              [] \<Rightarrow> npos
            | i # _ \<Rightarrow> i))"

definition ExtractSeverityFromPolicyJson :: "string \<Rightarrow> string \<Rightarrow> string" where
  "ExtractSeverityFromPolicyJson bundleJson pid =
     (let idPos = string_find bundleJson (dquote @ ''id'' @ dquote @ '':'' @ dquote @ pid @ dquote) 0;
          policyStart = string_rfind bundleJson ''{'' idPos;
          policyEnd = FindMatchingBracket bundleJson policyStart (CHR ''{'') (CHR ''}'')
      in if idPos < npos \<and> policyStart < npos \<and> policyEnd < npos
         then (let sev = ExtractJsonString
                           (substr bundleJson policyStart (policyEnd - policyStart + 1)) ''severity''
               in if sev = [] then ''medium'' else sev)
         else ''medium'')"

section \<open>USB file tracking\<close>

text \<open>
  \<open>ScanDirectoryRecursiveUSB(dir, base)\<close>: the regular files below \<open>dir\<close>, each as its
  file name and its path relative to \<open>base\<close>.
\<close>

definition GetRelativePathUSB :: "world \<Rightarrow> string \<Rightarrow> string \<Rightarrow> string" where
  "GetRelativePathUSB w fullp basePath =
     (let normalizedFull = NormalizeFilesystemPath w fullp;
          normalizedBase = NormalizeFilesystemPath w basePath
      in if string_find normalizedFull normalizedBase 0 = 0
         then (let relative = drop (length normalizedBase) normalizedFull
               in (case relative of
                     [] \<Rightarrow> []
                   | c # cs \<Rightarrow> if is_separator c then cs else c # cs))
         else fullp)"

definition is_below :: "string \<Rightarrow> string \<Rightarrow> bool" where
  "is_below dir p =
     (starts_with p dir
      \<and> (case drop (length dir) p of
            [] \<Rightarrow> False
          | c # cs \<Rightarrow> (is_separator c \<and> cs \<noteq> []) \<or> (dir \<noteq> [] \<and> is_separator (last dir))))"

definition ScanDirectoryRecursiveUSB :: "world \<Rightarrow> string \<Rightarrow> string \<Rightarrow> (string \<times> string) list" where
  "ScanDirectoryRecursiveUSB w dir basePath =
     map (\<lambda>p. (filename p, GetRelativePathUSB w p basePath))
       (filter (is_below dir) (map fst (files w)))"

definition tracked_files ::
  "world \<Rightarrow> USBFileTransferPolicy \<Rightarrow> string \<Rightarrow> (string \<times> FileMetadata) list" where
  "tracked_files w policy monitoredPath =
     (let normalizedPath = NormalizeFilesystemPath w monitoredPath
      in if fs_exists w normalizedPath
         then map (\<lambda>(fname, rel).
                     (normalizedPath @ '':'' @ rel,
                      \<lparr>m_name = fname, relativePath = rel, inMonitored = True,
                       fullPath = normalizedPath @ bslash @ rel,
                       fileSize = (case file_size w (normalizedPath @ bslash @ rel) of
                                     None \<Rightarrow> 0 | Some n \<Rightarrow> n)\<rparr>))
                (ScanDirectoryRecursiveUSB w normalizedPath normalizedPath)
         else [])"

text \<open>
  \<open>InitializeUSBFileTracking\<close> rebuilds the table of tracked files and the shadow entries
  (path and size) from the enabled transfer rules.
\<close>

definition track_file ::
  "USBFileTransferPolicy
   \<Rightarrow> (string \<times> FileMetadata) list \<times> (string \<times> string \<times> nat) list
   \<Rightarrow> string \<times> FileMetadata
   \<Rightarrow> (string \<times> FileMetadata) list \<times> (string \<times> string \<times> nat) list" where
  "track_file policy tables entry =
     (map_put (fst entry) (snd entry) (fst tables),
      if t_action policy = ''block''
      then map_put (fst entry) (fullPath (snd entry), fileSize (snd entry)) (snd tables)
      else snd tables)"

definition InitializeUSBFileTracking :: "agent \<Rightarrow> agent" where
  "InitializeUSBFileTracking s =
     (let tables =
            foldl (\<lambda>tables policy.
                     if t_enabled policy
                     then foldl (\<lambda>tables monitoredPath.
                                   foldl (track_file policy) tables
                                     (tracked_files (world s) policy monitoredPath))
                            tables (t_monitoredPaths policy)
                     else tables)
              ([], []) (usbTransferPolicies s)
      in s\<lparr>monitoredFiles := fst tables, shadowCopies := snd tables\<rparr>)"

section \<open>Applying a bundle\<close>

definition is_connect_event :: "string \<Rightarrow> bool" where
  "is_connect_event evt = (evt = ''usb_connect'' \<or> evt = ''all'' \<or> evt = ''*'')"

definition restore_device_access :: "agent \<Rightarrow> agent" where
  "restore_device_access s = s\<lparr>blocker_log := blocker_log s @ [EnableAllDevices, RegistryBlock False]\<rparr>"

definition to_transfer_policy :: "string \<Rightarrow> PolicyRule \<Rightarrow> USBFileTransferPolicy" where
  "to_transfer_policy bundleJson rule =
     \<lparr>t_policyId = policyId rule, t_name = name rule, t_action = action rule,
      t_severity = ExtractSeverityFromPolicyJson bundleJson (policyId rule),
      t_monitoredPaths = monitoredPaths rule, t_quarantinePath = quarantinePath rule,
      t_enabled = enabled rule\<rparr>"

text \<open>The part of \<open>ApplyPolicyBundle\<close> that runs when the \<open>policies\<close> object is found.\<close>

definition parse_policy_classes :: "string \<Rightarrow> agent \<Rightarrow> agent" where
  "parse_policy_classes bundleJson s =
     (let (fileRules, hasFile) =
            ParsePolicyArray bundleJson ''file_system_monitoring'' (filePolicies s, hasFilePolices s);
          (clipRules, hasClip) =
            ParsePolicyArray bundleJson ''clipboard_monitoring''
              (clipboardPolicies s, hasClipboardPolicies s);
          previousUsbBlocking = usbBlockingActive s;
          (usbRules, hasUsb) =
            ParsePolicyArray bundleJson ''usb_device_monitoring'' (usbPolicies s, hasUsbDevicePolicies s);
          newUsbBlocking =
            (hasUsb \<and> list_ex (\<lambda>policy. enabled policy \<and> action policy = ''block''
                                  \<and> list_ex is_connect_event (monitoredEvents policy)) usbRules);
          s1 = s\<lparr>filePolicies := fileRules, hasFilePolices := hasFile,
                 clipboardPolicies := clipRules, hasClipboardPolicies := hasClip,
                 usbPolicies := usbRules, hasUsbDevicePolicies := hasUsb\<rparr>;
          s2 = (if previousUsbBlocking \<and> \<not> newUsbBlocking then restore_device_access s1 else s1)
                 \<lparr>usbBlockingActive := newUsbBlocking\<rparr>;
          (transferRules, hasTransfer) =
            ParsePolicyArray bundleJson ''usb_file_transfer_monitoring''
              ([], hasUsbTransferPolicies s);
          s3 = s2\<lparr>hasUsbTransferPolicies := hasTransfer,
                  usbTransferPolicies := map (to_transfer_policy bundleJson) transferRules\<rparr>;
          s4 = (if previousUsbBlocking \<and> \<not> hasUsb
                then (restore_device_access s3)\<lparr>usbBlockingActive := False\<rparr> else s3);
          s5 = (if hasTransfer then InitializeUSBFileTracking s4 else s4);
          (otherRules, hasOther) = ParsePolicyArray bundleJson ''file_transfer_monitoring'' ([], False)
      in if hasOther
         then s5\<lparr>hasFilePolices := True, filePolicies := filePolicies s5 @ otherRules\<rparr>
         else s5)"

definition monitored_directories :: "agent \<Rightarrow> string list" where
  "monitored_directories s =
     sort (remdups (filter (\<lambda>normalized. normalized \<noteq> [] \<and> fs_exists (world s) normalized)
                      (map (NormalizeFilesystemPath (world s))
                         (concat (map monitoredPaths (filePolicies s))))))"

definition bundle_version :: "string \<Rightarrow> string option" where
  "bundle_version bundleJson =
     (let versionPos = string_find bundleJson (dquote @ ''version'' @ dquote) 0;
          colonPos = string_find bundleJson '':'' versionPos;
          quoteStart = string_find bundleJson dquote colonPos;
          quoteEnd = string_find bundleJson dquote (next_pos quoteStart)
      in if versionPos < npos \<and> quoteStart < npos \<and> quoteEnd < npos
         then Some (substr bundleJson (quoteStart + 1) (quoteEnd - quoteStart - 1))
         else None)"

definition ApplyPolicyBundle :: "string \<Rightarrow> agent \<Rightarrow> agent" where
  "ApplyPolicyBundle bundleJson s =
     (let s1 = s\<lparr>hasFilePolices := False, hasClipboardPolicies := False,
                 hasUsbDevicePolicies := False, hasUsbTransferPolicies := False,
                 filePolicies := [], clipboardPolicies := [], usbPolicies := [],
                 monitoredDirectories := []\<rparr>;
          policiesPos = string_find bundleJson (dquote @ ''policies'' @ dquote) 0;
          s2 = (if policiesPos < npos \<and> string_find bundleJson ''{'' policiesPos < npos
                then parse_policy_classes bundleJson s1 else s1);
          s3 = s2\<lparr>monitoredDirectories := monitored_directories s2,
                  activePolicyVersion := (case bundle_version bundleJson of
                                            None \<Rightarrow> activePolicyVersion s2
                                          | Some v \<Rightarrow> v)\<rparr>
      in s3\<lparr>allowEvents := (hasFilePolices s3 \<or> hasClipboardPolicies s3
                             \<or> hasUsbDevicePolicies s3 \<or> hasUsbTransferPolicies s3)\<rparr>)"

section \<open>The USB device monitor\<close>

text \<open>
  \<open>HandleUsbEvent\<close>: the first enabled rule that monitors \<open>usb_<eventType>\<close> decides the
  action of the event that is sent.
\<close>

definition monitors_usb_event :: "string \<Rightarrow> PolicyRule \<Rightarrow> bool" where
  "monitors_usb_event eventType policy =
     (enabled policy
      \<and> list_ex (\<lambda>monitoredEvent. monitoredEvent = ''usb_'' @ eventType \<or> monitoredEvent = ''all''
                    \<or> monitoredEvent = ''*'') (monitoredEvents policy))"

definition id_field :: "string \<Rightarrow> string \<Rightarrow> string" where
  "id_field deviceId tag =
     (let pos = string_find deviceId tag 0
      in if pos < npos then substr deviceId (pos + 4) 4 else ''unknown'')"

definition usb_envelope :: "string \<Rightarrow> string \<Rightarrow> string \<Rightarrow> PolicyRule \<Rightarrow> envelope" where
  "usb_envelope deviceName deviceId eventType policy =
     [(''event_type'', JStr ''usb''),
      (''event_subtype'', JStr (''usb_'' @ eventType)),
      (''source_type'', JStr ''agent''),
      (''description'',
       JStr (''USB Device '' @ eventType
             @ newline @ ''Device: '' @ deviceName
             @ newline @ ''Vendor ID: '' @ id_field deviceId ''VID_''
             @ newline @ ''Product ID: '' @ id_field deviceId ''PID_''
             @ newline @ ''Policy: '' @ name policy
             @ newline @ ''Action: '' @ action policy)),
      (''severity'', JStr (if action policy = ''block'' then ''critical''
                           else if action policy = ''alert'' then ''high'' else ''medium'')),
      (''action'', JStr (action policy)),
      (''device_name'', JStr deviceName),
      (''device_id'', JStr deviceId),
      (''vendor_id'', JStr (id_field deviceId ''VID_'')),
      (''product_id'', JStr (id_field deviceId ''PID_'')),
      (''policy_id'', JStr (policyId policy)),
      (''policy_name'', JStr (name policy)),
      (''event_action'', JStr eventType)]"

definition HandleUsbEvent :: "string \<Rightarrow> string \<Rightarrow> string \<Rightarrow> agent \<Rightarrow> agent" where
  "HandleUsbEvent deviceName deviceId eventType s =
     (if allowEvents s
      then (case filter (monitors_usb_event eventType) (usbPolicies s) of
              [] \<Rightarrow> s
            | policy # _ \<Rightarrow> SendEvent (usb_envelope deviceName deviceId eventType policy) s)
      else s)"

text \<open>
  The rule scan of \<open>HandleUsbDeviceArrival\<close>: every enabled rule that monitors the
  connect event overwrites the action; the scan stops at the first such rule that blocks.
  The result is the action, the rule's id and name, and \<open>shouldBlock\<close>.
\<close>

fun arrival_scan ::
  "PolicyRule list \<Rightarrow> string \<times> string \<times> string \<times> bool \<Rightarrow> string \<times> string \<times> string \<times> bool" where
  "arrival_scan [] acc = acc"
| "arrival_scan (policy # rest) acc =
     (if enabled policy \<and> list_ex is_connect_event (monitoredEvents policy)
      then (if action policy = ''block''
            then (action policy, policyId policy, name policy, True)
            else arrival_scan rest (action policy, policyId policy, name policy, False))
      else arrival_scan rest acc)"

text \<open>
  The three-stage device block.  Every stage is recorded in \<open>blocker_log\<close>; its outcome
  is given by the world.  The result carries the per-stage outcomes.
\<close>

definition block_devices :: "agent \<Rightarrow> agent \<times> bool \<times> bool \<times> nat" where
  "block_devices s =
     (let w = world s;
          ejected = filter (\<lambda>d. d \<in> eject_ok w) (removable w)
      in (s\<lparr>blocker_log := blocker_log s @ [RegistryBlock True, DisableAllDevices]
                              @ map EjectDrive (removable w),
            world := w\<lparr>accessible := accessible w - set ejected\<rparr>\<rparr>,
          registry_ok w, disable_ok w, length ejected))"

definition blocked_envelope ::
  "string \<Rightarrow> string \<Rightarrow> string \<Rightarrow> string \<Rightarrow> bool \<Rightarrow> bool \<Rightarrow> nat \<Rightarrow> envelope" where
  "blocked_envelope deviceName deviceId pid pname registryBlocked devicesDisabled ejectedCount =
     [(''event_type'', JStr ''usb''),
      (''event_subtype'', JStr ''usb_blocked''),
      (''source_type'', JStr ''agent''),
      (''description'', JStr (''USB device blocked by policy: '' @ deviceName)),
      (''severity'', JStr ''critical''),
      (''action'', JStr ''blocked''),
      (''device_name'', JStr deviceName),
      (''device_id'', JStr deviceId),
      (''policy_id'', JStr pid),
      (''policy_name'', JStr pname),
      (''block_success'', JBool (registryBlocked \<or> devicesDisabled \<or> 0 < ejectedCount)),
      (''registry_blocked'', JBool registryBlocked),
      (''devices_disabled'', JBool devicesDisabled),
      (''drives_ejected'', JInt (int ejectedCount))]"

definition HandleUsbDeviceArrival :: "string \<Rightarrow> string \<Rightarrow> agent \<Rightarrow> agent" where
  "HandleUsbDeviceArrival deviceName deviceId s =
     (if allowEvents s \<and> hasUsbDevicePolicies s
      then (let betterDeviceName = friendly_name (world s) deviceId;
                s1 = (case removable (world s) of
                        [] \<Rightarrow> s
                      | driveLetter # _ \<Rightarrow>
                          s\<lparr>usbDriveToDeviceId := map_put driveLetter deviceId (usbDriveToDeviceId s)\<rparr>)
            in if usbPolicies s1 = [] then s1
               else (case arrival_scan (usbPolicies s1) (''log'', [], [], False) of
                       (policyAction, matchedPolicyId, matchedPolicyName, shouldBlock) \<Rightarrow>
                         if shouldBlock \<and> usbBlockingActive s1
                         then (case block_devices s1 of
                                 (s2, registryBlocked, devicesDisabled, ejectedCount) \<Rightarrow>
                                   SendEvent (blocked_envelope betterDeviceName deviceId matchedPolicyId
                                                matchedPolicyName registryBlocked devicesDisabled
                                                ejectedCount) s2)
                         else if shouldBlock
                         then HandleUsbEvent betterDeviceName deviceId ''connect'' s1
                         else s1))
      else s)"

datatype device_change = DBT_DEVICEARRIVAL | DBT_DEVICEREMOVECOMPLETE

definition HandleDeviceChange :: "device_change \<Rightarrow> string \<Rightarrow> string \<Rightarrow> agent \<Rightarrow> agent" where
  "HandleDeviceChange change deviceName deviceId s =
     (case change of
        DBT_DEVICEARRIVAL \<Rightarrow> HandleUsbDeviceArrival deviceName deviceId s
      | DBT_DEVICEREMOVECOMPLETE \<Rightarrow>
          (let s1 = HandleUsbEvent deviceName deviceId ''disconnect'' s
           in case filter (\<lambda>entry. snd entry = deviceId) (usbDriveToDeviceId s1) of
                [] \<Rightarrow> s1
              | (driveToRemove, _) # _ \<Rightarrow>
                  if driveToRemove = [] then s1
                  else s1\<lparr>usbDriveToDeviceId := map_erase driveToRemove (usbDriveToDeviceId s1)\<rparr>))"

section \<open>The USB file-transfer monitor\<close>

text \<open>
  \<open>SendUSBTransferEvent\<close>.  The size is read from the source file when that exists, else
  from the USB file; when reading the size of the source throws, nothing is sent.
\<close>

definition transfer_envelope ::
  "string \<Rightarrow> string \<Rightarrow> string \<Rightarrow> string \<Rightarrow> USBFileTransferPolicy \<Rightarrow> bool \<Rightarrow> nat \<Rightarrow> envelope" where
  "transfer_envelope rel usbFile monitoredPath act policy success n =
     [(''event_type'', JStr ''usb''),
      (''event_subtype'', JStr ''usb_file_transfer''),
      (''source_type'', JStr ''agent''),
      (''description'',
       JStr (''USB File Transfer '' @ act
             @ newline @ ''File: '' @ filename rel
             @ newline @ ''Source: '' @ monitoredPath
             @ newline @ ''Destination: '' @ usbFile
             @ newline @ ''Policy: '' @ t_name policy
             @ newline @ ''Size: '' @ to_string n @ '' bytes'')),
      (''severity'', JStr (t_severity policy)),
      (''action'', JStr act),
      (''file_name'', JStr (filename rel)),
      (''file_path'', JStr rel),
      (''file_size'', JInt (static_cast_int n)),
      (''source_path'', JStr monitoredPath),
      (''destination_path'', JStr usbFile),
      (''policy_id'', JStr (t_policyId policy)),
      (''policy_name'', JStr (t_name policy)),
      (''success'', JBool success)]"

definition SendUSBTransferEvent ::
  "string \<Rightarrow> string \<Rightarrow> string \<Rightarrow> string \<Rightarrow> USBFileTransferPolicy \<Rightarrow> bool \<Rightarrow> agent \<Rightarrow> agent" where
  "SendUSBTransferEvent rel usbFile monitoredPath act policy success s =
     (let w = world s;
          sourceFile = monitoredPath @ bslash @ rel
      in case (if fs_exists w sourceFile then file_size w sourceFile
               else if fs_exists w usbFile
               then Some (case file_size w usbFile of None \<Rightarrow> 0 | Some n \<Rightarrow> n)
               else Some 0) of
           None \<Rightarrow> s
         | Some n \<Rightarrow> SendEvent (transfer_envelope rel usbFile monitoredPath act policy success n) s)"

definition HandleUSBFileTransferAlert ::
  "string \<Rightarrow> string \<Rightarrow> string \<Rightarrow> string \<Rightarrow> USBFileTransferPolicy \<Rightarrow> agent \<Rightarrow> agent" where
  "HandleUSBFileTransferAlert fileName rel usbPath monitoredPath policy s =
     (let usbFile = usbPath @ bslash @ fileName
      in if fs_exists (world s) usbFile
         then SendUSBTransferEvent rel usbFile monitoredPath ''alerted'' policy True s
         else s)"

text \<open>\<open>relativePath.find_last_of("\\/")\<close> and the parent directory built from it.\<close>

definition parent_dir :: "string \<Rightarrow> string \<Rightarrow> string option" where
  "parent_dir monitoredPath rel =
     (if list_ex is_separator rel
      then Some (monitoredPath @ bslash
                 @ rev (drop 1 (dropWhile (\<lambda>c. \<not> is_separator c) (rev rel))))
      else None)"

definition ensure_parent :: "string \<Rightarrow> string \<Rightarrow> world \<Rightarrow> world option" where
  "ensure_parent monitoredPath rel w =
     (case parent_dir monitoredPath rel of
        None \<Rightarrow> Some w
      | Some dirPath \<Rightarrow> create_directories dirPath w)"

text \<open>
  Block: a copy is deleted from the USB drive; a moved file is copied back first.  The
  world keeps what was done before an exception; the event then reports the failure.
\<close>

definition HandleUSBFileTransferBlock ::
  "string \<Rightarrow> string \<Rightarrow> string \<Rightarrow> string \<Rightarrow> USBFileTransferPolicy \<Rightarrow> agent \<Rightarrow> agent" where
  "HandleUSBFileTransferBlock fileName rel usbPath monitoredPath policy s =
     (let usbFile = usbPath @ bslash @ fileName;
          monitoredFile = monitoredPath @ bslash @ rel;
          w = world s;
          failed = (\<lambda>w1. SendUSBTransferEvent rel usbFile monitoredPath ''block_failed'' policy
                           False (s\<lparr>world := w1\<rparr>))
      in if fs_exists w usbFile
         then (if fs_exists w monitoredFile
               then (case fs_remove usbFile w of
                       None \<Rightarrow> failed w
                     | Some w1 \<Rightarrow>
                         SendUSBTransferEvent rel usbFile monitoredPath ''blocked_copy'' policy True
                           (s\<lparr>world := w1\<rparr>))
               else (case ensure_parent monitoredPath rel w of
                       None \<Rightarrow> failed w
                     | Some w1 \<Rightarrow>
                         (case fs_copy_file usbFile monitoredFile w1 of
                            None \<Rightarrow> failed w1
                          | Some w2 \<Rightarrow>
                              (case fs_remove usbFile w2 of
                                 None \<Rightarrow> failed w2
                               | Some w3 \<Rightarrow>
                                   (case file_size w3 monitoredFile of
                                      None \<Rightarrow> failed w3
                                    | Some n \<Rightarrow>
                                        SendUSBTransferEvent rel usbFile monitoredPath
                                          ''blocked_move'' policy True
                                          (s\<lparr>world := w3,
                                             shadowCopies :=
                                               map_put (monitoredPath @ '':'' @ rel) (monitoredFile, n)
                                                 (shadowCopies s)\<rparr>))))))
         else s)"

text \<open>
  Quarantine: the source (for a copy) or the USB file (for a move) is renamed into the
  rule's quarantine directory and the restore thread is started (two minutes).
  \<open>time(NULL)\<close> is the system clock in seconds.
\<close>

definition HandleUSBFileTransferQuarantine ::
  "string \<Rightarrow> string \<Rightarrow> string \<Rightarrow> string \<Rightarrow> USBFileTransferPolicy \<Rightarrow> agent \<Rightarrow> agent" where
  "HandleUSBFileTransferQuarantine fileName rel usbPath monitoredPath policy s =
     (let usbFile = usbPath @ bslash @ fileName;
          monitoredFile = monitoredPath @ bslash @ rel;
          w = world s;
          timestamp = to_string (system_now w div 10000000);
          vaultDir = (if t_quarantinePath policy = [] then quarantine_folder
                      else t_quarantinePath policy);
          quarantineFile = vaultDir @ bslash @ fileName @ ''_'' @ timestamp;
          failed = (\<lambda>w1. SendUSBTransferEvent rel usbFile monitoredPath ''quarantine_failed''
                           policy False (s\<lparr>world := w1\<rparr>));
          done = (\<lambda>kind w1.
                    schedule 120000 (RestoreUsb quarantineFile monitoredFile rel monitoredPath fileName)
                      ((SendUSBTransferEvent rel usbFile monitoredPath (''quarantined_'' @ kind)
                          policy True (s\<lparr>world := w1\<rparr>))
                       \<lparr>quarantinedUSBFiles := insert fileName (quarantinedUSBFiles s)\<rparr>))
      in if fs_exists w usbFile
         then (case create_directories vaultDir w of
                 None \<Rightarrow> failed w
               | Some w1 \<Rightarrow>
                   if fs_exists w monitoredFile
                   then (case fs_rename monitoredFile quarantineFile w1 of
                           None \<Rightarrow> failed w1
                         | Some w2 \<Rightarrow>
                             (case fs_remove usbFile w2 of
                                None \<Rightarrow> failed w2
                              | Some w3 \<Rightarrow> done ''copy'' w3))
                   else (case fs_rename usbFile quarantineFile w1 of
                           None \<Rightarrow> failed w1
                         | Some w2 \<Rightarrow> done ''move'' w2))
         else s)"

definition restore_usb :: "string \<Rightarrow> string \<Rightarrow> string \<Rightarrow> string \<Rightarrow> string \<Rightarrow> agent \<Rightarrow> agent" where
  "restore_usb quarantineFile monitoredFile rel monitoredPath fileName s =
     (case ensure_parent monitoredPath rel (world s) of
        None \<Rightarrow> s
      | Some w1 \<Rightarrow>
          if fs_exists w1 quarantineFile
          then (case fs_rename quarantineFile monitoredFile w1 of
                  None \<Rightarrow> s\<lparr>world := w1\<rparr>
                | Some w2 \<Rightarrow>
                    s\<lparr>world := w2, quarantinedUSBFiles := quarantinedUSBFiles s - {fileName}\<rparr>)
          else s\<lparr>world := w1\<rparr>)"

text \<open>
  The monitored path of a rule that the tracked file comes from, and the first enabled
  rule that has one.
\<close>

definition matched_path :: "world \<Rightarrow> FileMetadata \<Rightarrow> USBFileTransferPolicy \<Rightarrow> string option" where
  "matched_path w meta policy =
     (case filter (\<lambda>normalizedMonPath. string_find (fullPath meta) normalizedMonPath 0 = 0)
             (map (NormalizeFilesystemPath w) (t_monitoredPaths policy)) of
        [] \<Rightarrow> None
      | matchedMonitoredPath # _ \<Rightarrow> Some matchedMonitoredPath)"

fun applicable_policy ::
  "world \<Rightarrow> FileMetadata \<Rightarrow> USBFileTransferPolicy list \<Rightarrow> (USBFileTransferPolicy \<times> string) option" where
  "applicable_policy w meta [] = None"
| "applicable_policy w meta (policy # rest) =
     (if t_enabled policy
      then (case matched_path w meta policy of
              None \<Rightarrow> applicable_policy w meta rest
            | Some matchedMonitoredPath \<Rightarrow> Some (policy, matchedMonitoredPath))
      else applicable_policy w meta rest)"

definition execute_policy ::
  "string \<Rightarrow> FileMetadata \<Rightarrow> USBFileTransferPolicy \<Rightarrow> string \<Rightarrow> agent \<Rightarrow> agent" where
  "execute_policy drivePath meta policy matchedMonitoredPath s =
     (if t_action policy = ''block''
      then HandleUSBFileTransferBlock (m_name meta) (relativePath meta) drivePath
             matchedMonitoredPath policy s
      else if t_action policy = ''quarantine''
      then HandleUSBFileTransferQuarantine (m_name meta) (relativePath meta) drivePath
             matchedMonitoredPath policy s
      else if t_action policy = ''alert''
      then HandleUSBFileTransferAlert (m_name meta) (relativePath meta) drivePath
             matchedMonitoredPath policy s
      else s)"

text \<open>
  The body of the loop of \<open>CheckUSBDriveForMonitoredFiles\<close> for one tracked file;
  \<open>currentFilesOnUSB\<close> is the set of file names found on the drive before the loop.
\<close>

definition check_tracked_file :: "string \<Rightarrow> string set \<Rightarrow> agent \<Rightarrow> FileMetadata \<Rightarrow> agent" where
  "check_tracked_file drivePath currentFilesOnUSB s meta =
     (let fileKey = drivePath @ '':'' @ m_name meta;
          isOnUSBNow = (m_name meta \<in> currentFilesOnUSB);
          wasOnUSBBefore = (currentUSBFileState s fileKey = Some True)
      in if isOnUSBNow \<and> \<not> wasOnUSBBefore
         then (let s1 = s\<lparr>currentUSBFileState := (currentUSBFileState s)(fileKey \<mapsto> True)\<rparr>
               in case applicable_policy (world s1) meta (usbTransferPolicies s1) of
                    None \<Rightarrow> s1
                  | Some (policy, matchedMonitoredPath) \<Rightarrow>
                      execute_policy drivePath meta policy matchedMonitoredPath s1)
         else if wasOnUSBBefore \<and> \<not> isOnUSBNow
         then s\<lparr>currentUSBFileState := (currentUSBFileState s)(fileKey \<mapsto> False)\<rparr>
         else s)"

definition drive_ready :: "world \<Rightarrow> string \<Rightarrow> bool" where
  "drive_ready w drivePath = (drivePath \<in> set (removable w) \<inter> accessible w)"

definition files_on_drive :: "world \<Rightarrow> string \<Rightarrow> string set" where
  "files_on_drive w drivePath = set (map fst (ScanDirectoryRecursiveUSB w drivePath drivePath))"

definition CheckUSBDriveForMonitoredFiles :: "string \<Rightarrow> agent \<Rightarrow> agent" where
  "CheckUSBDriveForMonitoredFiles drivePath s =
     (if drive_ready (world s) drivePath \<and> drivePath @ bslash \<in> dirs (world s)
      then foldl (check_tracked_file drivePath (files_on_drive (world s) drivePath)) s
             (map snd (monitoredFiles s))
      else s)"

definition MarkExistingUSBFilesAsProcessed :: "string \<Rightarrow> agent \<Rightarrow> agent" where
  "MarkExistingUSBFilesAsProcessed drivePath s =
     (if drivePath \<in> accessible (world s)
      then s\<lparr>currentUSBFileState :=
               foldl (\<lambda>state fileName.
                        if list_ex (\<lambda>monitoredPair. m_name (snd monitoredPair) = fileName)
                             (monitoredFiles s)
                        then state(drivePath @ '':'' @ fileName \<mapsto> True)
                        else state)
                 (currentUSBFileState s)
                 (map fst (ScanDirectoryRecursiveUSB (world s) drivePath drivePath))\<rparr>
      else s)"

text \<open>
  One round of \<open>UsbFileTransferMonitor\<close>: new drives are swept, the state of vanished
  drives is dropped, every current drive is checked.
\<close>

definition UsbFileTransferMonitor_round :: "agent \<Rightarrow> agent" where
  "UsbFileTransferMonitor_round s =
     (if hasUsbTransferPolicies s \<and> allowEvents s
      then (let currentDrives = filter (\<lambda>d. d \<in> accessible (world s)) (removable (world s));
                s1 = foldl (\<lambda>s d. if d \<in> knownUSBDrives s then s
                                    else (MarkExistingUSBFilesAsProcessed d s)
                                           \<lparr>knownUSBDrives := insert d (knownUSBDrives s)\<rparr>)
                       s currentDrives;
                gone = knownUSBDrives s1 - set currentDrives;
                s2 = s1\<lparr>currentUSBFileState :=
                           (\<lambda>k. if (\<exists>d\<in>gone. starts_with k (d @ '':'')) then None
                                else currentUSBFileState s1 k),
                        knownUSBDrives := knownUSBDrives s1 \<inter> set currentDrives\<rparr>
            in foldl (\<lambda>s d. CheckUSBDriveForMonitoredFiles d s) s2 currentDrives)
      else s)"

section \<open>The store of originals\<close>

text \<open>
  \<open>fs::path::extension\<close>: the last dot of the file name and what follows, empty for a name
  without a dot, for a name whose only dot is its first character, and for \<open>..\<close>.
\<close>

definition extension :: "string \<Rightarrow> string" where
  "extension p =
     (let f = filename p;
          stem = rev (drop 1 (dropWhile (\<lambda>c. c \<noteq> CHR ''.'') (rev f)))
      in if list_ex (\<lambda>c. c = CHR ''.'') f \<and> stem \<noteq> [] \<and> f \<noteq> ''..''
         then drop (length stem) f else [])"

definition ShouldMonitorFile :: "agent \<Rightarrow> string \<Rightarrow> bool" where
  "ShouldMonitorFile s filePath =
     (let lowerExt = ToLower (extension filePath)
      in list_ex (\<lambda>policy.
                    list_ex (\<lambda>policyPath.
                               string_find filePath (NormalizeFilesystemPath (world s) policyPath) 0 = 0)
                      (monitoredPaths policy)
                    \<and> (fileExtensions policy = []
                         \<or> list_ex (\<lambda>policyExt. lowerExt = ToLower policyExt)
                              (fileExtensions policy)))
           (filePolicies s))"

text \<open>
  \<open>ScanAndStoreExistingFiles\<close>: every regular file below a monitored directory that the
  rules monitor, that has no stored original yet, that is under the size cap and whose
  content is not empty gets its content stored.  \<open>store_existing\<close> is the body of the
  inner loop.
\<close>

definition store_existing :: "agent \<Rightarrow> string \<Rightarrow> agent" where
  "store_existing s filePath =
     (if ShouldMonitorFile s filePath \<and> map_of (originalFileContents s) filePath = None
      then (case file_size (world s) filePath of
              None \<Rightarrow> s
            | Some fsize \<Rightarrow>
                if fsize < maxFileSizeMB * 1024 * 1024 \<and> ReadFileContent (world s) filePath \<noteq> []
                then s\<lparr>originalFileContents :=
                         map_put filePath (ReadFileContent (world s) filePath)
                           (originalFileContents s)\<rparr>
                else s)
      else s)"

definition ScanAndStoreExistingFiles :: "agent \<Rightarrow> agent" where
  "ScanAndStoreExistingFiles s =
     foldl (\<lambda>s dir. if dir \<in> dirs (world s)
                      then foldl store_existing s (filter (is_below dir) (map fst (files (world s))))
                      else s)
       s (monitoredDirectories s)"

text \<open>\<open>CleanupOldOriginalContents\<close> on the store of originals.\<close>

definition MAX_STORED_FILES :: nat where
  "MAX_STORED_FILES = 1000"

definition CleanupOldOriginalContents :: "agent \<Rightarrow> agent" where
  "CleanupOldOriginalContents s =
     (if MAX_STORED_FILES < length (originalFileContents s)
      then s\<lparr>originalFileContents :=
               drop (length (originalFileContents s) - MAX_STORED_FILES div 2)
                 (originalFileContents s)\<rparr>
      else s)"

section \<open>Runs of the agent\<close>

text \<open>
  The agent right after construction, and the steps it takes afterwards: a bundle
  arrives, the existing files are scanned (\<open>Start\<close> and \<open>PolicySyncLoop\<close> do so after a
  sync, when file policies are active), the watcher reports a file event, a device
  arrives or leaves, the USB transfer monitor makes a round, a sleeping thread wakes up,
  or the world changes under the agent (a user edits a file, a drive is plugged in, time
  passes).
\<close>

definition initial_agent :: "world \<Rightarrow> agent" where
  "initial_agent w =
     \<lparr>allowEvents = False, hasFilePolices = False, hasClipboardPolicies = False,
      hasUsbDevicePolicies = False, hasUsbTransferPolicies = False, usbBlockingActive = False,
      activePolicyVersion = [], monitoredDirectories = [], recentEvents = Map.empty,
      filePolicies = [], clipboardPolicies = [], usbPolicies = [], filesBeingQuarantined = {},
      recentlyRestored = {}, originalFileContents = [], usbDriveToDeviceId = [],
      monitoredFiles = [], shadowCopies = [], currentUSBFileState = Map.empty,
      quarantinedUSBFiles = {}, usbTransferPolicies = [], knownUSBDrives = {}, world = w,
      sent = [], pending = [], blocker_log = []\<rparr>"

fun run_task :: "task \<Rightarrow> agent \<Rightarrow> agent" where
  "run_task (RestoreModified vaultPath filePath) s = restore_modified vaultPath filePath s"
| "run_task (RestoreDeleted vaultPath filePath originalContent) s =
     restore_deleted vaultPath filePath originalContent s"
| "run_task (GraceCleanup filePath) s = grace_cleanup filePath s"
| "run_task (RestoreUsb quarantineFile monitoredFile rel monitoredPath fileName) s =
     restore_usb quarantineFile monitoredFile rel monitoredPath fileName s"

datatype agent_step =
    BundleArrives string
  | BaselineScan
  | FileEvent string string string
  | DeviceChange device_change string string
  | TransferRound
  | ThreadWakes task
  | WorldChanges "world \<Rightarrow> world"

fun step :: "detector \<Rightarrow> agent \<Rightarrow> agent_step \<Rightarrow> agent" where
  "step ex s (BundleArrives bundleJson) = ApplyPolicyBundle bundleJson s"
| "step ex s BaselineScan = (if hasFilePolices s then ScanAndStoreExistingFiles s else s)"
| "step ex s (FileEvent filePath eventSubtype act) = HandleFileEvent ex filePath eventSubtype act s"
| "step ex s (DeviceChange change deviceName deviceId) = HandleDeviceChange change deviceName deviceId s"
| "step ex s TransferRound = UsbFileTransferMonitor_round s"
| "step ex s (ThreadWakes t) = run_task t (s\<lparr>pending := filter (\<lambda>entry. snd entry \<noteq> t) (pending s)\<rparr>)"
| "step ex s (WorldChanges f) = s\<lparr>world := f (world s)\<rparr>"

definition run :: "detector \<Rightarrow> world \<Rightarrow> agent_step list \<Rightarrow> agent" where
  "run ex w steps = foldl (step ex) (initial_agent w) steps"

definition no_active_policies :: "agent \<Rightarrow> bool" where
  "no_active_policies s =
     (\<not> (hasFilePolices s \<or> hasClipboardPolicies s \<or> hasUsbDevicePolicies s
          \<or> hasUsbTransferPolicies s))"

text \<open>
  The five policy flags of an agent, and a step from \<open>s\<close> to \<open>t\<close> that keeps them and
  sends nothing unless events are allowed.
\<close>

definition policy_flags :: "agent \<Rightarrow> bool \<times> bool \<times> bool \<times> bool \<times> bool" where
  "policy_flags s =
     (allowEvents s, hasFilePolices s, hasClipboardPolicies s, hasUsbDevicePolicies s,
      hasUsbTransferPolicies s)"

definition quiet :: "agent \<Rightarrow> agent \<Rightarrow> bool" where
  "quiet s t = (policy_flags t = policy_flags s \<and> (allowEvents s \<or> sent t = sent s))"

text \<open>
  The part of an agent that the file monitor works from, and an agent in which no file
  rule has a monitored path, no directory is monitored and no original is stored.
\<close>

definition file_side :: "agent \<Rightarrow> PolicyRule list \<times> string list \<times> (string \<times> string) list" where
  "file_side s = (filePolicies s, monitoredDirectories s, originalFileContents s)"

definition no_monitored_paths :: "agent \<Rightarrow> bool" where
  "no_monitored_paths s =
     (list_all (\<lambda>rule. monitoredPaths rule = []) (filePolicies s)
      \<and> monitoredDirectories s = [] \<and> originalFileContents s = [])"

section \<open>Example rules and states\<close>

text \<open>Two file rules over the same data type, one blocking and one quarantining.\<close>

definition rule_block_ssn :: PolicyRule where
  "rule_block_ssn =
     \<lparr>policyId = ''pol-block'', name = ''Block SSN'', policyType = ''file_system_monitoring'',
      action = ''block'', dataTypes = [''ssn''], fileExtensions = [],
      monitoredPaths = [''C:/Watched''], monitoredEvents = [], minMatchCount = 1,
      enabled = True, quarantinePath = []\<rparr>"

definition rule_quarantine_ssn :: PolicyRule where
  "rule_quarantine_ssn =
     \<lparr>policyId = ''pol-quarantine'', name = ''Quarantine SSN'',
      policyType = ''file_system_monitoring'', action = ''quarantine'', dataTypes = [''ssn''],
      fileExtensions = [], monitoredPaths = [''C:/Watched''], monitoredEvents = [],
      minMatchCount = 1, enabled = True, quarantinePath = []\<rparr>"

text \<open>
  A watched file and an agent whose only file rule quarantines SSNs.  \<open>file_agent\<close> takes the
  active file rules, the stored originals and the world.
\<close>

definition watched_file :: string where
  "watched_file = ''C:'' @ bslash @ ''Watched'' @ bslash @ ''notes.txt''"

definition base_world :: "string \<Rightarrow> world" where
  "base_world c =
     \<lparr>files = [(watched_file, c)], dirs = {''C:'' @ bslash @ ''Watched'', quarantine_folder},
      denied = {}, removable = [], accessible = {}, eject_ok = {}, registry_ok = True,
      disable_ok = True, expand_env = (\<lambda>p. p), friendly_name = (\<lambda>d. ''USB Device''),
      steady_now = 5000,
      system_now = 17300000000000000\<rparr>"

definition file_agent :: "PolicyRule list \<Rightarrow> (string \<times> string) list \<Rightarrow> world \<Rightarrow> agent" where
  "file_agent rules baselines w =
     \<lparr>allowEvents = True, hasFilePolices = True, hasClipboardPolicies = False,
      hasUsbDevicePolicies = False, hasUsbTransferPolicies = False, usbBlockingActive = False,
      activePolicyVersion = ''v1'', monitoredDirectories = [''C:'' @ bslash @ ''Watched''],
      recentEvents = Map.empty, filePolicies = rules, clipboardPolicies = [], usbPolicies = [],
      filesBeingQuarantined = {}, recentlyRestored = {}, originalFileContents = baselines,
      usbDriveToDeviceId = [], monitoredFiles = [], shadowCopies = [],
      currentUSBFileState = Map.empty, quarantinedUSBFiles = {}, usbTransferPolicies = [],
      knownUSBDrives = {}, world = w, sent = [], pending = [], blocker_log = []\<rparr>"

text \<open>The same agent when the file holds nothing of interest.\<close>

definition harmless_agent :: agent where
  "harmless_agent = file_agent [rule_quarantine_ssn] [] (base_world ''hello'')"


text \<open>
  A USB rule that only alerts on connect and disconnect, an agent with this rule as its
  only policy, and a device.
\<close>

definition rule_usb_alert :: PolicyRule where
  "rule_usb_alert =
     \<lparr>policyId = ''pol-usb-alert'', name = ''USB alert'', policyType = ''usb_device_monitoring'',
      action = ''alert'', dataTypes = [], fileExtensions = [], monitoredPaths = [],
      monitoredEvents = [''usb_connect'', ''usb_disconnect''], minMatchCount = 1, enabled = True,
      quarantinePath = []\<rparr>"

definition usb_alert_agent :: agent where
  "usb_alert_agent =
     (file_agent [] [] (base_world []))
       \<lparr>hasFilePolices := False, hasUsbDevicePolicies := True, usbPolicies := [rule_usb_alert]\<rparr>"

definition usb_stick :: string where
  "usb_stick = ''USB#VID_0951&PID_1666#60A44C413A8CF2B1''"

text \<open>
  Bundles as the server sends them: one with the USB rule above, one with a file rule
  that quarantines SSNs below \<open>C:/Watched\<close>, and the rule the parser makes of the
  latter.
\<close>

definition quoted :: "string \<Rightarrow> string" where
  "quoted s = dquote @ s @ dquote"

definition usb_alert_bundle :: string where
  "usb_alert_bundle =
     ''{'' @ quoted ''version'' @ '':'' @ quoted ''v1'' @ '','' @ quoted ''policies'' @ '':{''
     @ quoted ''usb_device_monitoring'' @ '':[{'' @ quoted ''id'' @ '':'' @ quoted ''pol-usb-alert''
     @ '','' @ quoted ''name'' @ '':'' @ quoted ''USB alert'' @ '','' @ quoted ''enabled'' @ '':true,''
     @ quoted ''config'' @ '':{'' @ quoted ''action'' @ '':'' @ quoted ''alert'' @ '',''
     @ quoted ''events'' @ '':{'' @ quoted ''connect'' @ '':true,'' @ quoted ''disconnect''
     @ '':true}}}]}}''"

definition file_rule_bundle :: string where
  "file_rule_bundle =
     ''{'' @ quoted ''version'' @ '':'' @ quoted ''v1'' @ '','' @ quoted ''policies'' @ '':{''
     @ quoted ''file_system_monitoring'' @ '':[{'' @ quoted ''id'' @ '':'' @ quoted ''pol-quarantine''
     @ '','' @ quoted ''name'' @ '':'' @ quoted ''Quarantine SSN'' @ '','' @ quoted ''enabled''
     @ '':true,'' @ quoted ''config'' @ '':{'' @ quoted ''action'' @ '':'' @ quoted ''quarantine''
     @ '','' @ quoted ''monitoredPaths'' @ '':['' @ quoted ''C:/Watched'' @ ''],''
     @ quoted ''patterns'' @ '':{'' @ quoted ''predefined'' @ '':['' @ quoted ''ssn''
     @ '']}}}]}}''"

definition parsed_file_rule :: PolicyRule where
  "parsed_file_rule = rule_quarantine_ssn\<lparr>monitoredPaths := []\<rparr>"

text \<open>
  A truncated bundle: the text stops after the \<open>policies\<close> key.
\<close>

definition truncated_bundle :: string where
  "truncated_bundle =
     ''{'' @ dquote @ ''version'' @ dquote @ '':'' @ dquote @ ''v2'' @ dquote @ '',''
     @ dquote @ ''policies'' @ dquote @ '':''"

text \<open>
  A removable drive \<open>E:\<close>, a transfer rule on the watched directory with a given action,
  and the agent that tracks \<open>notes.txt\<close> under this rule.  In \<open>transfer_world\<close> the file
  has been copied to the root of the drive, in \<open>nested_world\<close> into a directory on it.
\<close>

definition usb_drive :: string where
  "usb_drive = ''E:''"

definition rule_transfer :: "string \<Rightarrow> USBFileTransferPolicy" where
  "rule_transfer act =
     \<lparr>t_policyId = ''pol-transfer'', t_name = ''USB transfer'', t_action = act,
      t_severity = ''high'', t_monitoredPaths = [''C:'' @ bslash @ ''Watched''],
      t_quarantinePath = [], t_enabled = True\<rparr>"

definition drive_world :: "(string \<times> string) list \<Rightarrow> world" where
  "drive_world on_drive =
     (base_world ''SSN 123-45-6789'')
       \<lparr>files := (watched_file, ''SSN 123-45-6789'') # on_drive,
        dirs := {''C:'' @ bslash @ ''Watched'', quarantine_folder, usb_drive @ bslash,
                 usb_drive @ bslash @ ''backup''},
        removable := [usb_drive], accessible := {usb_drive}\<rparr>"

definition transfer_world :: world where
  "transfer_world = drive_world [(usb_drive @ bslash @ ''notes.txt'', ''SSN 123-45-6789'')]"

definition nested_world :: world where
  "nested_world =
     drive_world [(usb_drive @ bslash @ ''backup'' @ bslash @ ''notes.txt'', ''SSN 123-45-6789'')]"

definition tracking_agent :: "string \<Rightarrow> agent" where
  "tracking_agent act =
     InitializeUSBFileTracking
       ((file_agent [] [] (drive_world []))
          \<lparr>hasFilePolices := False, hasUsbTransferPolicies := True,
           usbTransferPolicies := [rule_transfer act], knownUSBDrives := {usb_drive}\<rparr>)"

definition notes_meta :: FileMetadata where
  "notes_meta =
     \<lparr>m_name = ''notes.txt'', relativePath = ''notes.txt'', inMonitored = True,
      fullPath = watched_file, fileSize = 15\<rparr>"

definition transfer_agent :: "string \<Rightarrow> world \<Rightarrow> agent" where
  "transfer_agent act w = (tracking_agent act)\<lparr>world := w\<rparr>"

section \<open>Properties of the classifier\<close>

lemma ssn_sample: "ExtractDataType_ssn ''SSN 123-45-6789'' ''ssn'' = [''123-45-6789'']"
  by (simp add: ExtractDataType_ssn_def ToLower_def tolower_char_def is_digit_def
      is_word_char_def)

text \<open>
  C5.  A block rule followed by a quarantine rule, both matching: the classifier suggests
  \<open>quarantine\<close>, the action of the later rule, not the stronger \<open>block\<close>; with the rules in
  the other order it suggests \<open>block\<close>.
\<close>

theorem classify_block_then_quarantine:
  "suggestedAction (Classify ExtractDataType_ssn ''SSN 123-45-6789''
       [rule_block_ssn, rule_quarantine_ssn] ''file_modified'') = ''quarantine''
   \<and> matchedPolicies (Classify ExtractDataType_ssn ''SSN 123-45-6789''
       [rule_block_ssn, rule_quarantine_ssn] ''file_modified'') = [''pol-block'', ''pol-quarantine'']
   \<and> suggestedAction (Classify ExtractDataType_ssn ''SSN 123-45-6789''
       [rule_quarantine_ssn, rule_block_ssn] ''file_modified'') = ''block''"
  by (simp add: Classify_def classify_policy_def check_dataType_def apply_action_def
      empty_result_def rule_block_ssn_def rule_quarantine_ssn_def ssn_sample)


section \<open>Ordered maps and the classification of an event\<close>

lemma map_of_map_put: "map_of (map_put k v m) = (map_of m)(k \<mapsto> v)"
  by (induction m) (auto simp: fun_eq_iff)

lemma map_of_map_erase: "map_of (map_erase k m) = (map_of m)(k := None)"
  by (induction m) (auto simp: map_erase_def fun_eq_iff)

lemma apply_action_fields [simp]:
  "labels (apply_action p r) = labels r"
  "matchedPolicies (apply_action p r) = matchedPolicies r"
  "detectedContent (apply_action p r) = detectedContent r"
  by (simp_all add: apply_action_def)

lemma classify_policy_labels:
  "(matchedPolicies r = [] \<longrightarrow> labels r = []) \<Longrightarrow>
   (matchedPolicies (classify_policy ex content ev r p) = [] \<longrightarrow> labels (classify_policy ex content ev r p) = [])"
  by (auto simp: classify_policy_def Let_def split: prod.splits)

lemma foldl_classify_labels:
  "(matchedPolicies r = [] \<longrightarrow> labels r = []) \<Longrightarrow>
   (matchedPolicies (foldl (classify_policy ex content ev) r ps) = [] \<longrightarrow>
    labels (foldl (classify_policy ex content ev) r ps) = [])"
proof (induction ps arbitrary: r)
  case Nil
  then show ?case by simp
next
  case (Cons p ps)
  show ?case
    unfolding foldl_Cons
    by (rule Cons.IH) (rule classify_policy_labels, rule Cons.prems)
qed

lemma Classify_labels:
  "matchedPolicies (Classify ex content ps ev) = [] \<Longrightarrow> labels (Classify ex content ps ev) = []"
  using foldl_classify_labels [of "empty_result\<lparr>severity := ''low'', score := 0, detection_method := ''regex'',
                                suggestedAction := ''logged''\<rparr>" ex content ev ps]
  by (auto simp: Classify_def empty_result_def Let_def split: if_splits)

lemma detected_summary_Nil [simp]: "detected_summary [] = ([], [], 0)"
  by (simp add: detected_summary_def)

lemma handle_unclassified:
  "labels c = [] \<Longrightarrow> matchedPolicies c = [] \<Longrightarrow> ev \<noteq> ''file_deleted'' \<Longrightarrow>
   handle_classified p ev act rel n c s = s"
  by (simp add: handle_classified_def)

text \<open>
  C10.  A \<open>file_created\<close> or \<open>file_modified\<close> event for which no rule matches is
  silent: nothing is sent, the file system is as it was, and no thread is scheduled.
\<close>

theorem unmatched_event_is_silent:
  assumes ev: "eventSubtype = ''file_created'' \<or> eventSubtype = ''file_modified''"
    and nomatch: "matchedPolicies (Classify ex (ReadFileContent (world s) filePath)
        (relevantPolicies (world s) filePath eventSubtype (filePolicies s)) eventSubtype) = []"
  shows "sent (HandleFileEvent ex filePath eventSubtype act s) = sent s
       \<and> world (HandleFileEvent ex filePath eventSubtype act s) = world s
       \<and> pending (HandleFileEvent ex filePath eventSubtype act s) = pending s"
proof -
  from ev have nd: "eventSubtype \<noteq> ''file_deleted''" by auto
  have lab: "labels (Classify ex (ReadFileContent (world s) filePath)
        (relevantPolicies (world s) filePath eventSubtype (filePolicies s)) eventSubtype) = []"
    using nomatch by (rule Classify_labels)
  show ?thesis
    using nd nomatch lab
    by (auto simp: HandleFileEvent_def classify_existing_def Let_def handle_classified_def
        report_event_def empty_result_def split: option.splits)
qed

section \<open>The examples, evaluated\<close>

lemmas file_defs = HandleFileEvent_def is_duplicate_def relevantPolicies_def pathMatches_def
  eventMatches_def NormalizeFilesystemPath_def string_find_def classify_existing_def
  classify_deleted_def file_size_def fs_lookup_def is_regular_file_def ReadFileContent_def
  maxFileSizeMB_def handle_classified_def report_event_def detected_summary_def
  summary_entry_def shouldRedact_def show_value_def enforce_def normal_quarantine_def
  deletion_quarantine_def ensure_quarantine_folder_def fs_exists_def create_directories_def
  fs_rename_def fs_write_def fs_remove_def can_open_def quarantine_path_def quarantine_folder_def
  filename_def is_separator_def bslash_def schedule_def SendEvent_def file_envelope_def
  Classify_def classify_policy_def check_dataType_def apply_action_def monitorsThisEvent_def
  empty_result_def force_deletion_def map_erase_def ToLower_def tolower_char_def npos_def
  substr_def restore_modified_def start_grace_def rename_back_def can_create_def
  is_directory_def parent_path_def strip_separators_def Let_def to_string.simps

lemmas example_defs = file_agent_def base_world_def watched_file_def rule_quarantine_ssn_def

lemma ssn_sample2: "ExtractDataType_ssn ''hello'' ''ssn'' = []"
  by (simp add: ExtractDataType_ssn_def ToLower_def tolower_char_def is_digit_def
      is_word_char_def)

theorem unmatched_event_is_silent_witness:
  "(''file_created'' = ''file_created'' \<or> ''file_created'' = ''file_modified'')
   \<and> matchedPolicies (Classify ExtractDataType_ssn (ReadFileContent (world harmless_agent) watched_file)
        (relevantPolicies (world harmless_agent) watched_file ''file_created''
           (filePolicies harmless_agent)) ''file_created'') = []
   \<and> sent (HandleFileEvent ExtractDataType_ssn watched_file ''file_created'' ''created''
        harmless_agent) = []
   \<and> world (HandleFileEvent ExtractDataType_ssn watched_file ''file_created'' ''created''
        harmless_agent) = base_world ''hello''"
proof -
  have e: "''file_created'' = ''file_created'' \<or> ''file_created'' = ''file_modified''"
    by simp
  have m: "matchedPolicies (Classify ExtractDataType_ssn (ReadFileContent (world harmless_agent) watched_file)
        (relevantPolicies (world harmless_agent) watched_file ''file_created''
           (filePolicies harmless_agent)) ''file_created'') = []"
    by (simp add: harmless_agent_def example_defs file_defs ssn_sample2)
  have s: "sent harmless_agent = []" and w: "world harmless_agent = base_world ''hello''"
    by (simp_all add: harmless_agent_def file_agent_def)
  from unmatched_event_is_silent [OF e m, of "''created''"] m s w
  show ?thesis by simp
qed

section \<open>The USB device monitor on arrival\<close>

lemmas usb_defs = HandleDeviceChange_def HandleUsbDeviceArrival_def HandleUsbEvent_def
  monitors_usb_event_def is_connect_event_def usb_envelope_def id_field_def block_devices_def
  blocked_envelope_def SendEvent_def string_find_def substr_def npos_def

text \<open>
  C9.  An agent whose only USB rule alerts on connect and disconnect: the arrival of a
  device does not call the blocker, but it reports nothing either, while the removal of
  the same device is reported.
\<close>

theorem alert_only_arrival_is_silent:
  "sent (HandleDeviceChange DBT_DEVICEARRIVAL ''Kingston DataTraveler'' usb_stick usb_alert_agent) = []
   \<and> blocker_log (HandleDeviceChange DBT_DEVICEARRIVAL ''Kingston DataTraveler'' usb_stick
        usb_alert_agent) = []
   \<and> map (\<lambda>e. map_of e ''event_subtype'')
        (sent (HandleDeviceChange DBT_DEVICEREMOVECOMPLETE ''Kingston DataTraveler'' usb_stick
           usb_alert_agent)) = [Some (JStr ''usb_disconnect'')]"
  by (simp add: usb_alert_agent_def rule_usb_alert_def usb_stick_def file_agent_def base_world_def
      usb_defs)

text \<open>
  In general: without an enabled connect rule whose action is \<open>block\<close>, an arrival leaves
  both the reported events and the blocker untouched.
\<close>

lemma arrival_scan_no_block:
  "\<not> list_ex (\<lambda>p. enabled p \<and> list_ex is_connect_event (monitoredEvents p) \<and> action p = ''block'') ps
   \<Longrightarrow> \<not> snd (snd (snd acc)) \<Longrightarrow> \<not> snd (snd (snd (arrival_scan ps acc)))"
  by (induction ps arbitrary: acc) auto

lemma arrival_without_block_rule:
  assumes "\<not> list_ex (\<lambda>p. enabled p \<and> list_ex is_connect_event (monitoredEvents p)
                          \<and> action p = ''block'') (usbPolicies s)"
  shows "sent (HandleUsbDeviceArrival deviceName deviceId s) = sent s
       \<and> blocker_log (HandleUsbDeviceArrival deviceName deviceId s) = blocker_log s"
proof -
  have "\<not> snd (snd (snd (arrival_scan (usbPolicies s) (''log'', [], [], False))))"
    using assms by (intro arrival_scan_no_block) simp_all
  then show ?thesis
    by (auto simp: HandleUsbDeviceArrival_def Let_def split: list.splits prod.splits)
qed

section \<open>The rule sets a bundle yields\<close>

lemma parse_array_independent:
  "ParsePolicyArray b t (xs, f) = (xs @ fst (ParsePolicyArray b t ([], False)), f \<or> snd (ParsePolicyArray b t ([], False)))"
  by (simp add: ParsePolicyArray_def Let_def)

lemma parse_array_flag:
  "snd (ParsePolicyArray b t ([], False)) = (fst (ParsePolicyArray b t ([], False)) \<noteq> [])"
  by (simp add: ParsePolicyArray_def Let_def)

lemma parse_policy_classes_policies:
  "filePolicies (parse_policy_classes b s) =
     fst (ParsePolicyArray b ''file_system_monitoring'' (filePolicies s, hasFilePolices s))
     @ fst (ParsePolicyArray b ''file_transfer_monitoring'' ([], False))
   \<and> clipboardPolicies (parse_policy_classes b s) =
     fst (ParsePolicyArray b ''clipboard_monitoring'' (clipboardPolicies s, hasClipboardPolicies s))
   \<and> usbPolicies (parse_policy_classes b s) =
     fst (ParsePolicyArray b ''usb_device_monitoring'' (usbPolicies s, hasUsbDevicePolicies s))"
  by (simp add: parse_policy_classes_def Let_def InitializeUSBFileTracking_def
      restore_device_access_def case_prod_beta parse_array_flag)

section \<open>The file monitor in a run of the agent\<close>

text \<open>
  The parser reads \<open>monitoredPaths\<close> for USB transfer rules only: every other rule it
  makes has no monitored path.
\<close>

lemma ParsePolicyObject_paths:
  "ptype \<noteq> ''usb_file_transfer_monitoring''
   \<Longrightarrow> monitoredPaths (ParsePolicyObject policyObj ptype) = []"
  by (simp add: ParsePolicyObject_def Let_def split: option.splits)

lemma policy_objects_paths:
  "ptype \<noteq> ''usb_file_transfer_monitoring''
   \<Longrightarrow> list_all (\<lambda>rule. monitoredPaths rule = []) (policy_objects ptype s)"
proof (induction ptype s rule: policy_objects.induct)
  case (1 ptype s)
  show ?case
    using 1 ParsePolicyObject_paths [of ptype]
    by (subst policy_objects.simps) (simp add: Let_def)
qed

lemma ParsePolicyArray_paths:
  assumes "ptype \<noteq> ''usb_file_transfer_monitoring''"
    and "list_all (\<lambda>rule. monitoredPaths rule = []) (fst acc)"
  shows "list_all (\<lambda>rule. monitoredPaths rule = []) (fst (ParsePolicyArray b ptype acc))"
  using assms policy_objects_paths [of ptype]
  by (simp add: ParsePolicyArray_def Let_def)

lemma ApplyPolicyBundle_paths:
  "list_all (\<lambda>rule. monitoredPaths rule = []) (filePolicies (ApplyPolicyBundle b s))"
proof -
  have "list_all (\<lambda>rule. monitoredPaths rule = [])
          (fst (ParsePolicyArray b ''file_system_monitoring'' ([], False))
           @ fst (ParsePolicyArray b ''file_transfer_monitoring'' ([], False)))"
    using ParsePolicyArray_paths [of "''file_system_monitoring''" "([], False)" b]
      ParsePolicyArray_paths [of "''file_transfer_monitoring''" "([], False)" b]
    by simp
  then show ?thesis
    by (simp add: ApplyPolicyBundle_def Let_def parse_policy_classes_policies)
qed

lemma concat_no_paths:
  "list_all (\<lambda>rule. monitoredPaths rule = []) rules \<Longrightarrow> concat (map monitoredPaths rules) = []"
  by (induction rules) simp_all

lemma ApplyPolicyBundle_directories: "monitoredDirectories (ApplyPolicyBundle b s) = []"
proof -
  have "monitored_directories t = []"
    if "list_all (\<lambda>rule. monitoredPaths rule = []) (filePolicies t)" for t
    using that by (simp add: monitored_directories_def concat_no_paths)
  moreover have "list_all (\<lambda>rule. monitoredPaths rule = [])
      (filePolicies (if c then parse_policy_classes b t else t))"
    if "filePolicies t = []" for c t
    using that ParsePolicyArray_paths [of "''file_system_monitoring''" "([], hasFilePolices t)" b]
      ParsePolicyArray_paths [of "''file_transfer_monitoring''" "([], False)" b]
    by (simp add: parse_policy_classes_policies)
  ultimately show ?thesis
    by (simp add: ApplyPolicyBundle_def Let_def)
qed

lemma ApplyPolicyBundle_store:
  "originalFileContents (ApplyPolicyBundle b s) = originalFileContents s"
  by (simp add: ApplyPolicyBundle_def Let_def parse_policy_classes_def case_prod_beta
      InitializeUSBFileTracking_def restore_device_access_def)

lemma no_monitored_paths_Apply:
  "originalFileContents s = [] \<Longrightarrow> no_monitored_paths (ApplyPolicyBundle b s)"
  by (simp add: no_monitored_paths_def ApplyPolicyBundle_paths ApplyPolicyBundle_directories
      ApplyPolicyBundle_store)

text \<open>Without a monitored path no rule is relevant to a file event, and nothing is scanned.\<close>

lemma relevantPolicies_Nil:
  "list_all (\<lambda>rule. monitoredPaths rule = []) rules \<Longrightarrow> relevantPolicies w p ev rules = []"
  by (induction rules) (simp_all add: relevantPolicies_def pathMatches_def)

lemma HandleFileEvent_idle:
  assumes "no_monitored_paths s"
  shows "HandleFileEvent ex p ev act s = s
       \<or> HandleFileEvent ex p ev act s
           = s\<lparr>recentEvents := (recentEvents s)((p, ev) \<mapsto> steady_now (world s))\<rparr>"
  using assms
  by (simp add: HandleFileEvent_def Let_def no_monitored_paths_def relevantPolicies_Nil)

lemma ScanAndStoreExistingFiles_idle:
  "no_monitored_paths s \<Longrightarrow> ScanAndStoreExistingFiles s = s"
  by (simp add: ScanAndStoreExistingFiles_def no_monitored_paths_def)

text \<open>The USB monitors leave the file rules, the monitored directories and the store alone.\<close>

lemma file_side_foldl:
  assumes "\<And>s x. file_side (f s x) = file_side s"
  shows "file_side (foldl f s xs) = file_side s"
  by (induction xs arbitrary: s) (simp_all add: assms)

lemma file_side_updates [simp]:
  "file_side (s\<lparr>world := w\<rparr>) = file_side s"
  "file_side (s\<lparr>sent := es\<rparr>) = file_side s"
  "file_side (s\<lparr>pending := p\<rparr>) = file_side s"
  "file_side (s\<lparr>shadowCopies := sc\<rparr>) = file_side s"
  "file_side (s\<lparr>quarantinedUSBFiles := q\<rparr>) = file_side s"
  "file_side (s\<lparr>currentUSBFileState := st\<rparr>) = file_side s"
  "file_side (s\<lparr>knownUSBDrives := k\<rparr>) = file_side s"
  "file_side (s\<lparr>usbDriveToDeviceId := m\<rparr>) = file_side s"
  "file_side (s\<lparr>blocker_log := l\<rparr>) = file_side s"
  "file_side (schedule delay t s) = file_side s"
  "file_side (SendEvent e s) = file_side s"
  by (simp_all add: file_side_def schedule_def SendEvent_def)

lemma file_side_HandleUsbEvent [simp]:
  "file_side (HandleUsbEvent deviceName deviceId eventType s) = file_side s"
  by (simp add: HandleUsbEvent_def split: list.splits)

lemma file_side_HandleUsbDeviceArrival:
  "file_side (HandleUsbDeviceArrival deviceName deviceId s) = file_side s"
  by (simp add: HandleUsbDeviceArrival_def block_devices_def Let_def
      split: list.splits prod.splits)

lemma file_side_HandleDeviceChange:
  "file_side (HandleDeviceChange change deviceName deviceId s) = file_side s"
  by (simp add: HandleDeviceChange_def file_side_HandleUsbDeviceArrival Let_def
      split: device_change.splits list.splits prod.splits)

lemma file_side_SendUSBTransferEvent [simp]:
  "file_side (SendUSBTransferEvent rel usb mp act pol ok s) = file_side s"
  by (simp add: SendUSBTransferEvent_def Let_def split: option.splits)

lemma file_side_Alert:
  "file_side (HandleUSBFileTransferAlert f rel up mp pol s) = file_side s"
  by (simp add: HandleUSBFileTransferAlert_def Let_def)

lemma file_side_Block:
  "file_side (HandleUSBFileTransferBlock f rel up mp pol s) = file_side s"
  by (simp add: HandleUSBFileTransferBlock_def Let_def split: option.splits)

lemma file_side_Quarantine:
  "file_side (HandleUSBFileTransferQuarantine f rel up mp pol s) = file_side s"
  by (simp add: HandleUSBFileTransferQuarantine_def Let_def split: option.splits)

lemma file_side_execute_policy:
  "file_side (execute_policy d meta pol mp s) = file_side s"
  by (simp add: execute_policy_def file_side_Alert file_side_Block file_side_Quarantine)

lemma file_side_check_tracked_file:
  "file_side (check_tracked_file d cur s meta) = file_side s"
  by (simp add: check_tracked_file_def Let_def file_side_execute_policy split: option.splits)

lemma file_side_Check: "file_side (CheckUSBDriveForMonitoredFiles d s) = file_side s"
  by (simp add: CheckUSBDriveForMonitoredFiles_def file_side_foldl file_side_check_tracked_file)

lemma file_side_round: "file_side (UsbFileTransferMonitor_round s) = file_side s"
proof -
  have a: "file_side (if d \<in> knownUSBDrives t then t
      else (MarkExistingUSBFilesAsProcessed d t)\<lparr>knownUSBDrives := insert d (knownUSBDrives t)\<rparr>)
      = file_side t" for t d
    by (simp add: MarkExistingUSBFilesAsProcessed_def)
  have b: "file_side (foldl (\<lambda>s d. CheckUSBDriveForMonitoredFiles d s) t ds) = file_side t" for t ds
    by (rule file_side_foldl) (rule file_side_Check)
  have c: "file_side (foldl (\<lambda>s d. if d \<in> knownUSBDrives s then s
      else (MarkExistingUSBFilesAsProcessed d s)\<lparr>knownUSBDrives := insert d (knownUSBDrives s)\<rparr>)
      t ds) = file_side t" for t ds
    by (rule file_side_foldl) (rule a)
  show ?thesis
    unfolding UsbFileTransferMonitor_round_def Let_def
    by (simp add: b c)
qed

lemma no_monitored_paths_file_side:
  "file_side t = file_side s \<Longrightarrow> no_monitored_paths s \<Longrightarrow> no_monitored_paths t"
  by (simp add: file_side_def no_monitored_paths_def)

lemma no_monitored_paths_run_task:
  assumes "no_monitored_paths s"
  shows "no_monitored_paths (run_task t s)"
proof (cases t)
  case (RestoreModified v p)
  with assms show ?thesis
    by (simp add: no_monitored_paths_def restore_modified_def start_grace_def schedule_def
        Let_def split: option.splits)
next
  case (RestoreDeleted v p c)
  with assms show ?thesis
    by (simp add: no_monitored_paths_def restore_deleted_def start_grace_def schedule_def
        map_erase_def Let_def split: option.splits)
next
  case (GraceCleanup p)
  with assms show ?thesis
    by (simp add: no_monitored_paths_def grace_cleanup_def)
next
  case (RestoreUsb q m r mp f)
  with assms show ?thesis
    by (simp add: no_monitored_paths_def restore_usb_def split: option.splits)
qed

lemma no_monitored_paths_step:
  assumes "no_monitored_paths s"
  shows "no_monitored_paths (step ex s st)"
proof (cases st)
  case (BundleArrives b)
  from assms have "originalFileContents s = []"
    by (simp add: no_monitored_paths_def)
  with BundleArrives show ?thesis
    by (simp add: no_monitored_paths_Apply)
next
  case BaselineScan
  with assms show ?thesis
    by (simp add: ScanAndStoreExistingFiles_idle)
next
  case (FileEvent p ev act)
  with assms HandleFileEvent_idle [OF assms, of ex p ev act] show ?thesis
    by (auto simp: no_monitored_paths_def)
next
  case (DeviceChange change n d)
  with assms show ?thesis
    by (simp add: no_monitored_paths_file_side [OF file_side_HandleDeviceChange])
next
  case TransferRound
  with assms show ?thesis
    by (simp add: no_monitored_paths_file_side [OF file_side_round])
next
  case (ThreadWakes t)
  have "no_monitored_paths (s\<lparr>pending := x\<rparr>)" for x
    using assms by (simp add: no_monitored_paths_def)
  with ThreadWakes show ?thesis
    by (simp add: no_monitored_paths_run_task)
next
  case (WorldChanges f)
  with assms show ?thesis
    by (simp add: no_monitored_paths_def)
qed

lemma no_monitored_paths_run: "no_monitored_paths (run ex w steps)"
proof (induction steps rule: rev_induct)
  case Nil
  show ?case
    by (simp add: run_def initial_agent_def no_monitored_paths_def)
next
  case (snoc st steps)
  then show ?case
    by (simp add: run_def no_monitored_paths_step)
qed

text \<open>
  So in every run a file event changes nothing but the table of recent events: no
  event is sent, no file is touched, no thread is started, no original is stored and no
  path is marked.
\<close>

lemma file_monitor_is_idle:
  "sent (step ex (run ex w steps) (FileEvent p ev act)) = sent (run ex w steps)
   \<and> world (step ex (run ex w steps) (FileEvent p ev act)) = world (run ex w steps)
   \<and> pending (step ex (run ex w steps) (FileEvent p ev act)) = pending (run ex w steps)
   \<and> originalFileContents (step ex (run ex w steps) (FileEvent p ev act)) = []
   \<and> filesBeingQuarantined (step ex (run ex w steps) (FileEvent p ev act))
       = filesBeingQuarantined (run ex w steps)
   \<and> recentlyRestored (step ex (run ex w steps) (FileEvent p ev act))
       = recentlyRestored (run ex w steps)"
  using HandleFileEvent_idle [OF no_monitored_paths_run, of ex p ev act ex w steps]
    no_monitored_paths_run [of ex w steps]
  by (auto simp: no_monitored_paths_def)


section \<open>A bundle applied over a previous one\<close>

lemma parse_policy_classes_flags:
  "hasFilePolices (parse_policy_classes b s) =
     (snd (ParsePolicyArray b ''file_system_monitoring'' (filePolicies s, hasFilePolices s))
      \<or> snd (ParsePolicyArray b ''file_transfer_monitoring'' ([], False)))
   \<and> hasClipboardPolicies (parse_policy_classes b s) =
     snd (ParsePolicyArray b ''clipboard_monitoring'' (clipboardPolicies s, hasClipboardPolicies s))
   \<and> hasUsbDevicePolicies (parse_policy_classes b s) =
     snd (ParsePolicyArray b ''usb_device_monitoring'' (usbPolicies s, hasUsbDevicePolicies s))
   \<and> hasUsbTransferPolicies (parse_policy_classes b s) =
     snd (ParsePolicyArray b ''usb_file_transfer_monitoring'' ([], hasUsbTransferPolicies s))"
  by (simp add: parse_policy_classes_def Let_def InitializeUSBFileTracking_def
      restore_device_access_def case_prod_beta)

text \<open>
  C3.  Applying a bundle never keeps the previous file, clipboard or USB device rules:
  these three rule sets and the five policy flags afterwards depend on the bundle alone.
  A bundle without a \<open>policies\<close> key, or without an opening brace after it, is not
  rejected: it leaves these three rule sets empty, every class flag cleared and the
  event gate shut.
\<close>

theorem apply_bundle_discards_previous:
  "filePolicies (ApplyPolicyBundle bundleJson s) = filePolicies (ApplyPolicyBundle bundleJson s')
   \<and> clipboardPolicies (ApplyPolicyBundle bundleJson s) = clipboardPolicies (ApplyPolicyBundle bundleJson s')
   \<and> usbPolicies (ApplyPolicyBundle bundleJson s) = usbPolicies (ApplyPolicyBundle bundleJson s')
   \<and> policy_flags (ApplyPolicyBundle bundleJson s) = policy_flags (ApplyPolicyBundle bundleJson s')
   \<and> (npos \<le> string_find bundleJson (dquote @ ''policies'' @ dquote) 0
        \<or> npos \<le> string_find bundleJson ''{'' (string_find bundleJson (dquote @ ''policies'' @ dquote) 0)
      \<longrightarrow> filePolicies (ApplyPolicyBundle bundleJson s) = []
          \<and> clipboardPolicies (ApplyPolicyBundle bundleJson s) = []
          \<and> usbPolicies (ApplyPolicyBundle bundleJson s) = []
          \<and> no_active_policies (ApplyPolicyBundle bundleJson s)
          \<and> \<not> allowEvents (ApplyPolicyBundle bundleJson s))"
  by (simp add: ApplyPolicyBundle_def Let_def no_active_policies_def policy_flags_def
      parse_policy_classes_policies parse_policy_classes_flags)

text \<open>
  What such a bundle leaves as it was: the list of USB transfer rules, the table of
  tracked files and the blocking flag are replaced only inside the \<open>policies\<close> object.
\<close>

lemma bundle_without_policies_keeps_transfer_rules:
  assumes "npos \<le> string_find bundleJson (dquote @ ''policies'' @ dquote) 0
        \<or> npos \<le> string_find bundleJson ''{'' (string_find bundleJson (dquote @ ''policies'' @ dquote) 0)"
  shows "usbTransferPolicies (ApplyPolicyBundle bundleJson s) = usbTransferPolicies s
       \<and> monitoredFiles (ApplyPolicyBundle bundleJson s) = monitoredFiles s
       \<and> usbBlockingActive (ApplyPolicyBundle bundleJson s) = usbBlockingActive s"
  using assms by (auto simp: ApplyPolicyBundle_def Let_def)

section \<open>Bundles, parsed\<close>

lemmas parse_defs = ParsePolicyArray_def policy_objects.simps ParsePolicyObject_def sub_object_def
  usb_events_def pattern_types_def ExtractJsonString_def ExtractJsonBool_def ExtractJsonArray_def
  array_elements.simps FindMatchingBracket_def string_find_def substr_def npos_def next_pos_def
  dquote_def isspace_def quoted_def Let_def

lemma usb_alert_bundle_rules:
  "ParsePolicyArray usb_alert_bundle ''usb_device_monitoring'' ([], False) = ([rule_usb_alert], True)"
  by (simp add: usb_alert_bundle_def rule_usb_alert_def parse_defs)

lemma usb_alert_bundle_other:
  "ParsePolicyArray usb_alert_bundle ''file_system_monitoring'' acc = acc"
  "ParsePolicyArray usb_alert_bundle ''clipboard_monitoring'' acc = acc"
  "ParsePolicyArray usb_alert_bundle ''usb_file_transfer_monitoring'' acc = acc"
  "ParsePolicyArray usb_alert_bundle ''file_transfer_monitoring'' acc = acc"
  by (simp_all add: usb_alert_bundle_def ParsePolicyArray_def string_find_def npos_def dquote_def
      quoted_def Let_def)

lemma usb_alert_bundle_head:
  "string_find usb_alert_bundle (dquote @ ''policies'' @ dquote) 0 < npos"
  "string_find usb_alert_bundle ''{'' (string_find usb_alert_bundle (dquote @ ''policies'' @ dquote) 0)
     < npos"
  "bundle_version usb_alert_bundle = Some ''v1''"
  by (simp_all add: usb_alert_bundle_def bundle_version_def string_find_def substr_def npos_def
      next_pos_def dquote_def quoted_def Let_def)

text \<open>The agent after its first sync with the USB bundle.\<close>

lemma usb_alert_bundle_applied:
  "usbPolicies (run ex w [BundleArrives usb_alert_bundle]) = [rule_usb_alert]"
  "policy_flags (run ex w [BundleArrives usb_alert_bundle]) = (True, False, False, True, False)"
  "filePolicies (run ex w [BundleArrives usb_alert_bundle]) = []"
  "clipboardPolicies (run ex w [BundleArrives usb_alert_bundle]) = []"
  "usbBlockingActive (run ex w [BundleArrives usb_alert_bundle]) = False"
  "sent (run ex w [BundleArrives usb_alert_bundle]) = []"
  "blocker_log (run ex w [BundleArrives usb_alert_bundle]) = []"
  "world (run ex w [BundleArrives usb_alert_bundle]) = w"
  by (simp_all add: run_def initial_agent_def ApplyPolicyBundle_def parse_policy_classes_def
      usb_alert_bundle_rules usb_alert_bundle_other usb_alert_bundle_head [simplified]
      policy_flags_def rule_usb_alert_def is_connect_event_def Let_def)

text \<open>In that agent the arrival of a device is not reported and the blocker is not called.\<close>

lemma arrival_after_sync_is_silent:
  "sent (run ex w [BundleArrives usb_alert_bundle,
                   DeviceChange DBT_DEVICEARRIVAL deviceName deviceId]) = []
   \<and> blocker_log (run ex w [BundleArrives usb_alert_bundle,
                           DeviceChange DBT_DEVICEARRIVAL deviceName deviceId]) = []"
proof -
  let ?s = "run ex w [BundleArrives usb_alert_bundle]"
  have "\<not> list_ex (\<lambda>p. enabled p \<and> list_ex is_connect_event (monitoredEvents p)
                          \<and> action p = ''block'') (usbPolicies ?s)"
    by (simp add: usb_alert_bundle_applied rule_usb_alert_def)
  from arrival_without_block_rule [OF this, of deviceName deviceId]
  have "sent (HandleDeviceChange DBT_DEVICEARRIVAL deviceName deviceId ?s) = []
      \<and> blocker_log (HandleDeviceChange DBT_DEVICEARRIVAL deviceName deviceId ?s) = []"
    by (simp add: HandleDeviceChange_def usb_alert_bundle_applied)
  moreover have "run ex w [BundleArrives usb_alert_bundle,
                   DeviceChange DBT_DEVICEARRIVAL deviceName deviceId]
      = HandleDeviceChange DBT_DEVICEARRIVAL deviceName deviceId ?s"
    by (simp add: run_def)
  ultimately show ?thesis
    by simp
qed

text \<open>
  The truncated bundle after a first sync with the USB bundle: the rule is gone and
  events are off.
\<close>

lemma truncated_bundle_has_no_object:
  "npos \<le> string_find truncated_bundle ''{'' (string_find truncated_bundle (dquote @ ''policies'' @ dquote) 0)"
  by (simp add: truncated_bundle_def dquote_def string_find_def npos_def)

theorem malformed_bundle_counterexample:
  "usbPolicies (run ExtractDataType_ssn (base_world []) [BundleArrives usb_alert_bundle])
     = [rule_usb_alert]
   \<and> allowEvents (run ExtractDataType_ssn (base_world []) [BundleArrives usb_alert_bundle])
   \<and> usbPolicies (run ExtractDataType_ssn (base_world [])
        [BundleArrives usb_alert_bundle, BundleArrives truncated_bundle]) = []
   \<and> \<not> hasUsbDevicePolicies (run ExtractDataType_ssn (base_world [])
        [BundleArrives usb_alert_bundle, BundleArrives truncated_bundle])
   \<and> \<not> allowEvents (run ExtractDataType_ssn (base_world [])
        [BundleArrives usb_alert_bundle, BundleArrives truncated_bundle])"
proof -
  have a: "run ExtractDataType_ssn (base_world [])
        [BundleArrives usb_alert_bundle, BundleArrives truncated_bundle]
      = ApplyPolicyBundle truncated_bundle
          (run ExtractDataType_ssn (base_world []) [BundleArrives usb_alert_bundle])"
    by (simp add: run_def)
  have b: "allowEvents (run ExtractDataType_ssn (base_world []) [BundleArrives usb_alert_bundle])"
    using usb_alert_bundle_applied(2) [of ExtractDataType_ssn "base_world []"]
    by (simp add: policy_flags_def)
  show ?thesis
    using truncated_bundle_has_no_object b
    by (simp add: a usb_alert_bundle_applied(1) ApplyPolicyBundle_def Let_def)
qed

theorem apply_bundle_discards_previous_witness:
  "npos \<le> string_find truncated_bundle ''{'' (string_find truncated_bundle (dquote @ ''policies'' @ dquote) 0)
   \<and> usbPolicies (run ExtractDataType_ssn (base_world []) [BundleArrives usb_alert_bundle])
       = [rule_usb_alert]
   \<and> filePolicies (ApplyPolicyBundle truncated_bundle
        (run ExtractDataType_ssn (base_world []) [BundleArrives usb_alert_bundle])) = []
   \<and> clipboardPolicies (ApplyPolicyBundle truncated_bundle
        (run ExtractDataType_ssn (base_world []) [BundleArrives usb_alert_bundle])) = []
   \<and> usbPolicies (ApplyPolicyBundle truncated_bundle
        (run ExtractDataType_ssn (base_world []) [BundleArrives usb_alert_bundle])) = []
   \<and> \<not> allowEvents (ApplyPolicyBundle truncated_bundle
        (run ExtractDataType_ssn (base_world []) [BundleArrives usb_alert_bundle]))
   \<and> policy_flags (ApplyPolicyBundle truncated_bundle
        (run ExtractDataType_ssn (base_world []) [BundleArrives usb_alert_bundle]))
       = policy_flags (ApplyPolicyBundle truncated_bundle (initial_agent (base_world [])))"
  using apply_bundle_discards_previous [of truncated_bundle
      "run ExtractDataType_ssn (base_world []) [BundleArrives usb_alert_bundle]"
      "initial_agent (base_world [])"]
    apply_bundle_discards_previous [of truncated_bundle "initial_agent (base_world [])"
      "initial_agent (base_world [])"]
    truncated_bundle_has_no_object
    usb_alert_bundle_applied(1) [of ExtractDataType_ssn "base_world []"]
  by simp

text \<open>
  The bundle with the file rule: the rule the agent holds afterwards has no monitored
  path, and the change of the watched file to hold an SSN goes unnoticed.
\<close>

lemma file_rule_bundle_rules:
  "ParsePolicyArray file_rule_bundle ''file_system_monitoring'' ([], False)
     = ([parsed_file_rule], True)"
  by (simp add: file_rule_bundle_def parsed_file_rule_def rule_quarantine_ssn_def parse_defs)

lemma file_rule_bundle_other:
  "ParsePolicyArray file_rule_bundle ''clipboard_monitoring'' acc = acc"
  "ParsePolicyArray file_rule_bundle ''usb_device_monitoring'' acc = acc"
  "ParsePolicyArray file_rule_bundle ''usb_file_transfer_monitoring'' acc = acc"
  "ParsePolicyArray file_rule_bundle ''file_transfer_monitoring'' acc = acc"
  by (simp_all add: file_rule_bundle_def ParsePolicyArray_def string_find_def npos_def dquote_def
      quoted_def Let_def)

lemma file_rule_bundle_head:
  "string_find file_rule_bundle (dquote @ ''policies'' @ dquote) 0 < npos"
  "string_find file_rule_bundle ''{'' (string_find file_rule_bundle (dquote @ ''policies'' @ dquote) 0)
     < npos"
  by (simp_all add: file_rule_bundle_def string_find_def npos_def dquote_def quoted_def)

lemma file_rule_bundle_applied:
  "filePolicies (run ex w [BundleArrives file_rule_bundle]) = [parsed_file_rule]"
  "monitoredPaths parsed_file_rule = []"
  "hasFilePolices (run ex w [BundleArrives file_rule_bundle])"
  "allowEvents (run ex w [BundleArrives file_rule_bundle])"
  "monitoredDirectories (run ex w [BundleArrives file_rule_bundle]) = []"
  by (simp_all add: run_def initial_agent_def ApplyPolicyBundle_def parse_policy_classes_def
      file_rule_bundle_rules file_rule_bundle_other file_rule_bundle_head [simplified]
      parsed_file_rule_def monitored_directories_def Let_def)

lemma file_rule_goes_unnoticed:
  "sent (run ExtractDataType_ssn (base_world ''SSN 123-45-6789'')
      [BundleArrives file_rule_bundle, BaselineScan,
       FileEvent watched_file ''file_modified'' ''modified'']) = []
   \<and> world (run ExtractDataType_ssn (base_world ''SSN 123-45-6789'')
      [BundleArrives file_rule_bundle, BaselineScan,
       FileEvent watched_file ''file_modified'' ''modified'']) = base_world ''SSN 123-45-6789''
   \<and> pending (run ExtractDataType_ssn (base_world ''SSN 123-45-6789'')
      [BundleArrives file_rule_bundle, BaselineScan,
       FileEvent watched_file ''file_modified'' ''modified'']) = []"
proof -
  let ?w = "base_world ''SSN 123-45-6789''"
  let ?s = "run ExtractDataType_ssn ?w [BundleArrives file_rule_bundle, BaselineScan]"
  have r: "run ExtractDataType_ssn ?w [BundleArrives file_rule_bundle, BaselineScan,
             FileEvent watched_file ''file_modified'' ''modified'']
           = step ExtractDataType_ssn ?s (FileEvent watched_file ''file_modified'' ''modified'')"
    by (simp add: run_def)
  have s: "?s = ApplyPolicyBundle file_rule_bundle (initial_agent ?w)"
    using no_monitored_paths_run [of ExtractDataType_ssn ?w "[BundleArrives file_rule_bundle]"]
    by (simp add: run_def ScanAndStoreExistingFiles_idle)
  have a: "sent ?s = [] \<and> world ?s = ?w \<and> pending ?s = []"
    unfolding s
    by (simp add: ApplyPolicyBundle_def parse_policy_classes_def case_prod_beta
        InitializeUSBFileTracking_def restore_device_access_def initial_agent_def Let_def)
  from file_monitor_is_idle [of ExtractDataType_ssn ?w
      "[BundleArrives file_rule_bundle, BaselineScan]" watched_file "''file_modified''"
      "''modified''"] a
  show ?thesis
    unfolding r by simp
qed

section \<open>Steps that leave the policy flags alone\<close>

text \<open>
  Every step except the arrival of a bundle keeps the policy flags, and delivers
  events only through the open gate.
\<close>

lemma quiet_refl [simp]: "quiet s s"
  by (simp add: quiet_def)

lemma quiet_trans: "quiet s t \<Longrightarrow> quiet t u \<Longrightarrow> quiet s u"
  by (auto simp: quiet_def policy_flags_def)

lemma quiet_SendEvent: "quiet s (SendEvent e s)"
  by (simp add: quiet_def policy_flags_def SendEvent_def)

lemma quiet_update:
  "policy_flags t = policy_flags s \<Longrightarrow> sent t = sent s \<Longrightarrow> quiet s t"
  by (simp add: quiet_def)

lemma quiet_normal_quarantine: "quiet s (fst (normal_quarantine p s))"
  by (auto simp: normal_quarantine_def Let_def schedule_def policy_flags_def
      intro!: quiet_update split: option.splits)

lemma quiet_deletion_quarantine: "quiet s (fst (deletion_quarantine p s))"
  by (auto simp: deletion_quarantine_def Let_def schedule_def policy_flags_def
      intro!: quiet_update split: option.splits)

lemma quiet_enforce: "enforce p ev c s = Some (s1, a) \<Longrightarrow> quiet s s1"
  using quiet_normal_quarantine [of s p] quiet_deletion_quarantine [of s p]
  by (auto simp: enforce_def Let_def policy_flags_def intro!: quiet_update
      split: if_splits option.splits)

lemma quiet_report_event: "quiet s (report_event p ev act n c s)"
  by (auto simp: report_event_def split: prod.splits option.splits
      intro: quiet_trans [OF quiet_enforce quiet_SendEvent])

lemma quiet_handle_classified: "quiet s (handle_classified p ev act rel n c s)"
  by (simp add: handle_classified_def quiet_report_event)

lemma classify_deleted_frame:
  assumes "classify_deleted ex p ev rel s = (s2, n, content, c)"
  shows "s2 = s"
  using assms by (auto simp: classify_deleted_def Let_def split: prod.splits)

lemma quiet_classify_existing:
  "classify_existing ex p ev rel s = (s2, n, content, c) \<Longrightarrow> quiet s s2"
  by (auto simp: classify_existing_def Let_def policy_flags_def intro!: quiet_update
      split: option.splits if_splits)

lemma quiet_HandleFileEvent: "quiet s (HandleFileEvent ex p ev act s)"
proof -
  let ?s1 = "s\<lparr>recentEvents := (recentEvents s)((p, ev) \<mapsto> steady_now (world s))\<rparr>"
  let ?rel = "relevantPolicies (world s) p ev (filePolicies s)"
  have q1: "quiet s ?s1" by (simp add: quiet_def policy_flags_def)
  obtain s2 n content c where cl:
    "(if ev = ''file_deleted'' then classify_deleted ex p ev ?rel ?s1
      else classify_existing ex p ev ?rel ?s1) = (s2, n, content, c)"
    by (cases "if ev = ''file_deleted'' then classify_deleted ex p ev ?rel ?s1
      else classify_existing ex p ev ?rel ?s1") auto
  have "quiet ?s1 s2"
    using cl classify_deleted_frame [of ex p ev ?rel ?s1 s2 n content c]
      quiet_classify_existing [of ex p ev ?rel ?s1 s2 n content c]
    by (auto split: if_splits)
  with q1 have "quiet s s2" by (rule quiet_trans)
  then have "quiet s (handle_classified p ev act ?rel n c s2)"
    by (rule quiet_trans) (rule quiet_handle_classified)
  moreover have "HandleFileEvent ex p ev act s = s \<or> HandleFileEvent ex p ev act s = ?s1
      \<or> HandleFileEvent ex p ev act s = handle_classified p ev act ?rel n c s2"
    using cl by (auto simp: HandleFileEvent_def Let_def)
  ultimately show ?thesis using q1 by auto
qed

lemma quiet_HandleUsbEvent: "quiet s (HandleUsbEvent n d e s)"
  by (auto simp: HandleUsbEvent_def quiet_SendEvent split: list.splits)

lemma quiet_HandleUsbDeviceArrival: "quiet s (HandleUsbDeviceArrival n d s)"
  by (auto simp: HandleUsbDeviceArrival_def Let_def quiet_def policy_flags_def SendEvent_def
      HandleUsbEvent_def block_devices_def split: list.splits prod.splits)

lemma quiet_HandleDeviceChange: "quiet s (HandleDeviceChange ch n d s)"
proof (cases ch)
  case DBT_DEVICEARRIVAL
  then show ?thesis by (simp add: HandleDeviceChange_def quiet_HandleUsbDeviceArrival)
next
  case DBT_DEVICEREMOVECOMPLETE
  have "quiet (HandleUsbEvent n d ''disconnect'' s)
      (HandleUsbEvent n d ''disconnect'' s\<lparr>usbDriveToDeviceId := x\<rparr>)" for x
    by (simp add: quiet_def policy_flags_def)
  with quiet_HandleUsbEvent [of s n d "''disconnect''"] DBT_DEVICEREMOVECOMPLETE show ?thesis
    by (auto simp: HandleDeviceChange_def Let_def split: list.splits intro: quiet_trans)
qed

lemma quiet_world [simp]: "quiet s (s\<lparr>world := w\<rparr>)"
  by (simp add: quiet_def policy_flags_def)

lemma SendUSBTransferEvent_flags [simp]:
  "allowEvents (SendUSBTransferEvent rel usbFile mp act pol ok s) = allowEvents s"
  "hasFilePolices (SendUSBTransferEvent rel usbFile mp act pol ok s) = hasFilePolices s"
  "hasClipboardPolicies (SendUSBTransferEvent rel usbFile mp act pol ok s) = hasClipboardPolicies s"
  "hasUsbDevicePolicies (SendUSBTransferEvent rel usbFile mp act pol ok s) = hasUsbDevicePolicies s"
  "hasUsbTransferPolicies (SendUSBTransferEvent rel usbFile mp act pol ok s) = hasUsbTransferPolicies s"
  by (simp_all add: SendUSBTransferEvent_def SendEvent_def Let_def split: option.splits)

lemma SendUSBTransferEvent_gated [simp]:
  "\<not> allowEvents s \<Longrightarrow> sent (SendUSBTransferEvent rel usbFile mp act pol ok s) = sent s"
  by (simp add: SendUSBTransferEvent_def SendEvent_def Let_def split: option.splits)

lemma quiet_fields:
  "quiet s t \<Longrightarrow> quiet s (t\<lparr>shadowCopies := x\<rparr>)"
  "quiet s t \<Longrightarrow> quiet s (t\<lparr>quarantinedUSBFiles := y\<rparr>)"
  "quiet s t \<Longrightarrow> quiet s (t\<lparr>currentUSBFileState := z\<rparr>)"
  "quiet s t \<Longrightarrow> quiet s (t\<lparr>world := w\<rparr>)"
  "quiet s t \<Longrightarrow> quiet s (t\<lparr>knownUSBDrives := k\<rparr>)"
  "quiet s t \<Longrightarrow> quiet s (schedule d task t)"
  by (simp_all add: quiet_def policy_flags_def schedule_def)

lemma quiet_from_fields:
  "quiet (s\<lparr>currentUSBFileState := z\<rparr>) t \<Longrightarrow> quiet s t"
  by (simp_all add: quiet_def policy_flags_def)

lemma quiet_send_after:
  "quiet s t \<Longrightarrow> quiet s (SendUSBTransferEvent rel usbFile mp act pol ok t)"
  by (auto simp: quiet_def policy_flags_def)

lemmas quiet_rules = quiet_refl quiet_send_after quiet_fields

lemma quiet_Alert: "quiet s (HandleUSBFileTransferAlert f rel up mp pol s)"
  by (simp add: HandleUSBFileTransferAlert_def Let_def quiet_rules)

lemma quiet_Block: "quiet s (HandleUSBFileTransferBlock f rel up mp pol s)"
  by (simp add: HandleUSBFileTransferBlock_def Let_def quiet_rules split: option.splits)

lemma quiet_Quarantine: "quiet s (HandleUSBFileTransferQuarantine f rel up mp pol s)"
  by (simp add: HandleUSBFileTransferQuarantine_def Let_def quiet_rules split: option.splits)

lemma quiet_execute_policy: "quiet s (execute_policy d meta pol mp s)"
  by (simp add: execute_policy_def quiet_Block quiet_Quarantine quiet_Alert)

lemma quiet_check_tracked_file: "quiet s (check_tracked_file d cur s meta)"
  by (auto simp: check_tracked_file_def Let_def split: option.splits prod.splits
      intro!: quiet_from_fields [OF quiet_execute_policy] quiet_fields)

lemma quiet_foldl:
  assumes "\<And>s x. quiet s (f s x)"
  shows "quiet s (foldl f s xs)"
proof (induction xs arbitrary: s)
  case Nil
  show ?case by simp
next
  case (Cons x xs)
  show ?case
    unfolding foldl_Cons by (rule quiet_trans [OF assms Cons.IH])
qed

lemma quiet_store_existing: "quiet s (store_existing s p)"
  by (simp add: store_existing_def quiet_def policy_flags_def split: option.splits)

lemma quiet_Scan: "quiet s (ScanAndStoreExistingFiles s)"
proof -
  have "quiet t (if dir \<in> dirs (world t)
                 then foldl store_existing t (filter (is_below dir) (map fst (files (world t))))
                 else t)" for t dir
    by (simp add: quiet_foldl quiet_store_existing)
  then show ?thesis
    unfolding ScanAndStoreExistingFiles_def by (rule quiet_foldl)
qed

lemma quiet_Check: "quiet s (CheckUSBDriveForMonitoredFiles d s)"
  by (simp add: CheckUSBDriveForMonitoredFiles_def quiet_foldl quiet_check_tracked_file)

lemma quiet_Mark: "quiet s (MarkExistingUSBFilesAsProcessed d s)"
  by (simp add: MarkExistingUSBFilesAsProcessed_def quiet_fields)

lemma quiet_round: "quiet s (UsbFileTransferMonitor_round s)"
proof -
  have a: "quiet s (if d \<in> knownUSBDrives s then s
      else (MarkExistingUSBFilesAsProcessed d s)\<lparr>knownUSBDrives := insert d (knownUSBDrives s)\<rparr>)" for s d
    by (simp add: quiet_fields quiet_Mark)
  show ?thesis
    unfolding UsbFileTransferMonitor_round_def Let_def
    by (auto intro!: quiet_trans [OF _ quiet_foldl [of "\<lambda>s d. CheckUSBDriveForMonitoredFiles d s"]]
        quiet_Check quiet_fields quiet_foldl a)
qed

lemma quiet_run_task: "quiet s (run_task t s)"
proof (cases t)
  case (RestoreModified v p)
  then show ?thesis
    by (auto simp: restore_modified_def rename_back_def start_grace_def schedule_def Let_def
        policy_flags_def intro!: quiet_update split: option.splits)
next
  case (RestoreDeleted v p c)
  then show ?thesis
    by (auto simp: restore_deleted_def start_grace_def schedule_def Let_def
        policy_flags_def intro!: quiet_update split: option.splits)
next
  case (GraceCleanup p)
  then show ?thesis
    by (simp add: grace_cleanup_def quiet_def policy_flags_def)
next
  case (RestoreUsb q m r mp f)
  then show ?thesis
    by (auto simp: restore_usb_def policy_flags_def intro!: quiet_update split: option.splits)
qed

text \<open>After a bundle is applied the event gate is the disjunction of the class flags.\<close>

lemma ApplyPolicyBundle_gate:
  "allowEvents (ApplyPolicyBundle b s) = (\<not> no_active_policies (ApplyPolicyBundle b s))"
  by (simp add: ApplyPolicyBundle_def Let_def no_active_policies_def)

lemma ApplyPolicyBundle_sent: "sent (ApplyPolicyBundle b s) = sent s"
  by (simp add: ApplyPolicyBundle_def Let_def parse_policy_classes_def case_prod_beta
      InitializeUSBFileTracking_def restore_device_access_def)

lemma quiet_step:
  "quiet s (step ex s st) \<or> (\<exists>b. st = BundleArrives b)"
proof (cases st)
  case (ThreadWakes t)
  have "quiet s (s\<lparr>pending := x\<rparr>)" for x
    by (simp add: quiet_def policy_flags_def)
  then show ?thesis
    using ThreadWakes by (auto intro: quiet_trans [OF _ quiet_run_task])
qed (simp_all add: quiet_HandleFileEvent quiet_HandleDeviceChange quiet_round quiet_Scan)

lemma gate_step:
  assumes "allowEvents s = (\<not> no_active_policies s)"
  shows "allowEvents (step ex s st) = (\<not> no_active_policies (step ex s st))"
proof (cases "\<exists>b. st = BundleArrives b")
  case True
  then show ?thesis by (auto simp: ApplyPolicyBundle_gate)
next
  case False
  with quiet_step [of s ex st] have "policy_flags (step ex s st) = policy_flags s"
    by (simp add: quiet_def)
  with assms show ?thesis
    by (simp add: policy_flags_def no_active_policies_def)
qed

lemma gate_run: "allowEvents (run ex w steps) = (\<not> no_active_policies (run ex w steps))"
proof (induction steps rule: rev_induct)
  case Nil
  show ?case by (simp add: run_def initial_agent_def no_active_policies_def)
next
  case (snoc st steps)
  then show ?case
    by (simp add: run_def gate_step)
qed

text \<open>
  C2.  In every state the agent reaches in which no policy class is active, the emitter
  drops whatever it is given, and no step of the agent delivers an event.
\<close>

theorem no_policies_no_events:
  assumes "no_active_policies (run ex w steps)"
  shows "SendEvent eventData (run ex w steps) = run ex w steps
       \<and> sent (step ex (run ex w steps) st) = sent (run ex w steps)"
proof -
  have off: "\<not> allowEvents (run ex w steps)"
    using assms by (simp add: gate_run)
  have "sent (step ex (run ex w steps) st) = sent (run ex w steps)"
  proof (cases "\<exists>b. st = BundleArrives b")
    case True
    then show ?thesis by (auto simp: ApplyPolicyBundle_sent)
  next
    case False
    with quiet_step [of "run ex w steps" ex st] off show ?thesis
      by (simp add: quiet_def)
  qed
  with off show ?thesis
    by (simp add: SendEvent_def)
qed

theorem no_policies_no_events_witness:
  "no_active_policies
     (run ExtractDataType_ssn (base_world ''SSN 123-45-6789'')
        [FileEvent watched_file ''file_created'' ''created''])
   \<and> SendEvent [(''event_type'', JStr ''file'')]
        (run ExtractDataType_ssn (base_world ''SSN 123-45-6789'')
           [FileEvent watched_file ''file_created'' ''created''])
     = run ExtractDataType_ssn (base_world ''SSN 123-45-6789'')
         [FileEvent watched_file ''file_created'' ''created'']
   \<and> sent (step ExtractDataType_ssn
        (run ExtractDataType_ssn (base_world ''SSN 123-45-6789'')
           [FileEvent watched_file ''file_created'' ''created''])
        (DeviceChange DBT_DEVICEARRIVAL ''Kingston'' usb_stick))
     = sent (run ExtractDataType_ssn (base_world ''SSN 123-45-6789'')
         [FileEvent watched_file ''file_created'' ''created''])"
proof -
  let ?s = "initial_agent (base_world ''SSN 123-45-6789'')"
  have "quiet ?s (HandleFileEvent ExtractDataType_ssn watched_file ''file_created'' ''created'' ?s)"
    by (rule quiet_HandleFileEvent)
  then have "no_active_policies
     (run ExtractDataType_ssn (base_world ''SSN 123-45-6789'')
        [FileEvent watched_file ''file_created'' ''created''])"
    by (simp add: run_def quiet_def policy_flags_def no_active_policies_def initial_agent_def)
  then show ?thesis
    using no_policies_no_events [of ExtractDataType_ssn "base_world ''SSN 123-45-6789''"
        "[FileEvent watched_file ''file_created'' ''created'']"
        "[(''event_type'', JStr ''file'')]"
        "DeviceChange DBT_DEVICEARRIVAL ''Kingston'' usb_stick"]
    by simp
qed

section \<open>Detection of a transfer to a removable drive\<close>

lemmas transfer_defs = tracking_agent_def InitializeUSBFileTracking_def tracked_files_def
  track_file_def ScanDirectoryRecursiveUSB_def GetRelativePathUSB_def is_below_def
  NormalizeFilesystemPath_def string_find_def substr_def npos_def
  fs_exists_def is_regular_file_def fs_lookup_def file_size_def filename_def is_separator_def
  rule_transfer_def drive_world_def base_world_def file_agent_def watched_file_def bslash_def
  usb_drive_def quarantine_folder_def Let_def

lemma tracking_agent_tables:
  "monitoredFiles (tracking_agent act) = [(''C:'' @ bslash @ ''Watched:notes.txt'', notes_meta)]"
  by (simp add: transfer_defs notes_meta_def)

lemma SendUSBTransferEvent_frame [simp]:
  "currentUSBFileState (SendUSBTransferEvent rel usb mp act pol ok s) = currentUSBFileState s"
  "world (SendUSBTransferEvent rel usb mp act pol ok s) = world s"
  "pending (SendUSBTransferEvent rel usb mp act pol ok s) = pending s"
  by (simp_all add: SendUSBTransferEvent_def SendEvent_def Let_def split: option.splits)

lemma dirs_unchanged:
  "fs_remove p w = Some w' \<Longrightarrow> dirs w' = dirs w"
  "fs_rename a b w = Some w' \<Longrightarrow> dirs w' = dirs w"
  "fs_copy_file a b w = Some w' \<Longrightarrow> dirs w' = dirs w"
  by (auto simp: fs_remove_def fs_rename_def fs_copy_file_def split: if_splits option.splits)

lemma dirs_create_directories:
  "create_directories d w = Some w' \<Longrightarrow> dirs w' = insert d (dirs w)"
  by (auto simp: create_directories_def split: if_splits)

lemma parent_dir_shorter:
  assumes "parent_dir mp rel = Some d"
  shows "d \<noteq> mp @ bslash @ rel"
proof -
  from assms have ne: "rel \<noteq> []"
    and d: "d = mp @ bslash @ rev (drop 1 (dropWhile (\<lambda>c. \<not> is_separator c) (rev rel)))"
    by (auto simp: parent_dir_def split: if_splits)
  have "length (dropWhile (\<lambda>c. \<not> is_separator c) (rev rel)) \<le> length rel"
    using length_dropWhile_le [of "\<lambda>c. \<not> is_separator c" "rev rel"] by simp
  with ne have "length (rev (drop 1 (dropWhile (\<lambda>c. \<not> is_separator c) (rev rel)))) < length rel"
    by (cases rel) auto
  then have "rev (drop 1 (dropWhile (\<lambda>c. \<not> is_separator c) (rev rel))) \<noteq> rel"
    by (metis less_irrefl)
  with d show ?thesis
    by simp
qed

lemma dirs_ensure_parent:
  assumes "ensure_parent mp rel w = Some w'" and "mp @ bslash @ rel \<notin> dirs w"
  shows "mp @ bslash @ rel \<notin> dirs w'"
proof (cases "parent_dir mp rel")
  case None
  with assms show ?thesis
    by (simp add: ensure_parent_def)
next
  case (Some d)
  with assms have "dirs w' = insert d (dirs w)"
    by (simp add: ensure_parent_def dirs_create_directories)
  with assms(2) parent_dir_shorter [OF Some] show ?thesis
    by auto
qed

lemma SendUSBTransferEvent_sent:
  assumes "allowEvents s" and "mp @ bslash @ rel \<notin> dirs (world s)"
  shows "\<exists>n. sent (SendUSBTransferEvent rel usb mp act pol ok s)
             = sent s @ [transfer_envelope rel usb mp act pol ok n]"
  using assms
  by (auto simp: SendUSBTransferEvent_def SendEvent_def Let_def fs_exists_def
      is_regular_file_def file_size_def split: option.splits)

lemma send_in:
  assumes "allowEvents s" and "mp @ bslash @ rel \<notin> dirs w"
  shows "\<exists>a ok n. sent (SendUSBTransferEvent rel usb mp act pol b (s\<lparr>world := w\<rparr>))
             = sent s @ [transfer_envelope rel usb mp a pol ok n]"
    and "\<exists>a ok n. sent (SendUSBTransferEvent rel usb mp act pol b (s\<lparr>world := w, shadowCopies := sc\<rparr>))
             = sent s @ [transfer_envelope rel usb mp a pol ok n]"
  using SendUSBTransferEvent_sent [of "s\<lparr>world := w\<rparr>" mp rel usb act pol b]
    SendUSBTransferEvent_sent [of "s\<lparr>world := w, shadowCopies := sc\<rparr>" mp rel usb act pol b] assms
  by auto

lemma Alert_sent:
  assumes "allowEvents s" and "fs_exists (world s) (up @ bslash @ f)"
    and "mp @ bslash @ rel \<notin> dirs (world s)"
  shows "\<exists>a ok n. sent (HandleUSBFileTransferAlert f rel up mp pol s)
             = sent s @ [transfer_envelope rel (up @ bslash @ f) mp a pol ok n]"
  using assms SendUSBTransferEvent_sent [of s mp rel "up @ bslash @ f" "''alerted''" pol True]
  by (auto simp: HandleUSBFileTransferAlert_def Let_def)

lemma dirs_elims:
  "fs_remove p w = Some w' \<Longrightarrow> (dirs w' = dirs w \<Longrightarrow> P) \<Longrightarrow> P"
  "fs_rename a b w = Some w' \<Longrightarrow> (dirs w' = dirs w \<Longrightarrow> P) \<Longrightarrow> P"
  "fs_copy_file a b w = Some w' \<Longrightarrow> (dirs w' = dirs w \<Longrightarrow> P) \<Longrightarrow> P"
  "create_directories d w = Some w' \<Longrightarrow> (dirs w' = insert d (dirs w) \<Longrightarrow> P) \<Longrightarrow> P"
  by (simp_all add: dirs_unchanged dirs_create_directories)

lemma ensure_parent_elim:
  assumes "ensure_parent mp rel w = Some w'"
    and "(mp @ bslash @ rel \<in> dirs w') = (mp @ bslash @ rel \<in> dirs w) \<Longrightarrow> P"
  shows P
proof (cases "parent_dir mp rel")
  case None
  with assms show ?thesis
    by (simp add: ensure_parent_def)
next
  case (Some d)
  with assms(1) have "dirs w' = insert d (dirs w)"
    by (simp add: ensure_parent_def dirs_create_directories)
  with parent_dir_shorter [OF Some] assms(2) show ?thesis
    by auto
qed

lemma Block_sent:
  assumes "allowEvents s" and "fs_exists (world s) (up @ bslash @ f)"
    and "mp @ bslash @ rel \<notin> dirs (world s)"
  shows "\<exists>a ok n. sent (HandleUSBFileTransferBlock f rel up mp pol s)
             = sent s @ [transfer_envelope rel (up @ bslash @ f) mp a pol ok n]"
proof -
  have w0: "\<exists>a ok n. sent (SendUSBTransferEvent rel (up @ bslash @ f) mp act pol b s)
             = sent s @ [transfer_envelope rel (up @ bslash @ f) mp a pol ok n]" for act b
    using assms(1,3) send_in(1) [of s mp rel "world s" "up @ bslash @ f" act pol b] by simp
  show ?thesis
    unfolding HandleUSBFileTransferBlock_def Let_def
    using assms
    by (auto split: option.splits intro!: send_in w0 elim!: dirs_elims ensure_parent_elim)
qed

lemma Quarantine_sent:
  assumes "allowEvents s" and "fs_exists (world s) (up @ bslash @ f)"
    and "mp @ bslash @ rel \<notin> dirs (world s)"
    and "(if t_quarantinePath pol = [] then quarantine_folder else t_quarantinePath pol)
           \<noteq> mp @ bslash @ rel"
  shows "\<exists>a ok n. sent (HandleUSBFileTransferQuarantine f rel up mp pol s)
             = sent s @ [transfer_envelope rel (up @ bslash @ f) mp a pol ok n]"
proof -
  have w0: "\<exists>a ok n. sent (SendUSBTransferEvent rel (up @ bslash @ f) mp act pol b s)
             = sent s @ [transfer_envelope rel (up @ bslash @ f) mp a pol ok n]" for act b
    using assms(1,3) send_in(1) [of s mp rel "world s" "up @ bslash @ f" act pol b] by simp
  show ?thesis
    unfolding HandleUSBFileTransferQuarantine_def Let_def
    using assms
    by (auto simp: schedule_def split: option.splits if_splits intro!: send_in w0
        elim!: dirs_elims)
qed

lemma execute_policy_sent:
  assumes "allowEvents s" and "fs_exists (world s) (d @ bslash @ m_name meta)"
    and "mp @ bslash @ relativePath meta \<notin> dirs (world s)"
    and "(if t_quarantinePath pol = [] then quarantine_folder else t_quarantinePath pol)
           \<noteq> mp @ bslash @ relativePath meta"
    and "t_action pol = ''block'' \<or> t_action pol = ''quarantine'' \<or> t_action pol = ''alert''"
  shows "\<exists>a ok n. sent (execute_policy d meta pol mp s)
             = sent s @ [transfer_envelope (relativePath meta) (d @ bslash @ m_name meta) mp a pol ok n]"
  using assms Block_sent [of s d "m_name meta" mp "relativePath meta" pol]
    Quarantine_sent [of s d "m_name meta" mp "relativePath meta" pol]
    Alert_sent [of s d "m_name meta" mp "relativePath meta" pol]
  by (auto simp: execute_policy_def)

lemma execute_policy_state:
  "currentUSBFileState (execute_policy d meta pol mp s) = currentUSBFileState s"
  by (simp add: execute_policy_def HandleUSBFileTransferBlock_def HandleUSBFileTransferQuarantine_def
      HandleUSBFileTransferAlert_def schedule_def Let_def split: option.splits)

lemma mark_fold:
  "st k = Some True \<or> (\<exists>n\<in>set names. tracked n \<and> k = d @ '':'' @ n)
   \<Longrightarrow> foldl (\<lambda>state fileName. if tracked fileName then state(d @ '':'' @ fileName \<mapsto> True)
                                 else state) st names k = Some True"
  by (induction names rule: rev_induct) auto

lemma Mark_frame:
  "sent (MarkExistingUSBFilesAsProcessed d s) = sent s"
  "world (MarkExistingUSBFilesAsProcessed d s) = world s"
  "pending (MarkExistingUSBFilesAsProcessed d s) = pending s"
  "monitoredFiles (MarkExistingUSBFilesAsProcessed d s) = monitoredFiles s"
  by (simp_all add: MarkExistingUSBFilesAsProcessed_def)

lemma Mark_state:
  assumes "d \<in> accessible (world s)" and "meta \<in> snd ` set (monitoredFiles s)"
    and "m_name meta \<in> files_on_drive (world s) d"
  shows "currentUSBFileState (MarkExistingUSBFilesAsProcessed d s) (d @ '':'' @ m_name meta)
         = Some True"
proof -
  let ?tracked = "\<lambda>fileName. list_ex (\<lambda>monitoredPair. m_name (snd monitoredPair) = fileName)
                                (monitoredFiles s)"
  let ?names = "map fst (ScanDirectoryRecursiveUSB (world s) d d)"
  have "?tracked (m_name meta)"
    using assms(2) by (auto simp: list_ex_iff)
  with assms(3)
  have "\<exists>n\<in>set ?names. ?tracked n \<and> d @ '':'' @ m_name meta = d @ '':'' @ n"
    unfolding files_on_drive_def by blast
  then have "foldl (\<lambda>state fileName. if ?tracked fileName then state(d @ '':'' @ fileName \<mapsto> True)
                                 else state) (currentUSBFileState s) ?names
               (d @ '':'' @ m_name meta) = Some True"
    by (intro mark_fold disjI2)
  with assms(1) show ?thesis
    by (simp add: MarkExistingUSBFilesAsProcessed_def)
qed

lemma check_marked:
  assumes "m_name meta \<in> cur \<longrightarrow> currentUSBFileState u (d @ '':'' @ m_name meta) = Some True"
  shows "sent (check_tracked_file d cur u meta) = sent u"
    and "world (check_tracked_file d cur u meta) = world u"
    and "pending (check_tracked_file d cur u meta) = pending u"
    and "n \<in> cur \<Longrightarrow> currentUSBFileState (check_tracked_file d cur u meta) (d @ '':'' @ n)
                        = currentUSBFileState u (d @ '':'' @ n)"
  using assms by (auto simp: check_tracked_file_def Let_def)

lemma check_fold_marked:
  assumes "\<forall>meta\<in>set ms. m_name meta \<in> cur
             \<longrightarrow> currentUSBFileState u (d @ '':'' @ m_name meta) = Some True"
  shows "sent (foldl (check_tracked_file d cur) u ms) = sent u
       \<and> world (foldl (check_tracked_file d cur) u ms) = world u
       \<and> pending (foldl (check_tracked_file d cur) u ms) = pending u"
  using assms
proof (induction ms arbitrary: u)
  case Nil
  show ?case by simp
next
  case (Cons m ms)
  from Cons.prems
  have m: "m_name m \<in> cur \<longrightarrow> currentUSBFileState u (d @ '':'' @ m_name m) = Some True"
    by simp
  have "\<forall>meta\<in>set ms. m_name meta \<in> cur
          \<longrightarrow> currentUSBFileState (check_tracked_file d cur u m) (d @ '':'' @ m_name meta) = Some True"
    using Cons.prems check_marked(4) [OF m] by simp
  from Cons.IH [OF this] check_marked(1-3) [OF m] show ?case
    by simp
qed

lemma sweep_then_check:
  "sent (CheckUSBDriveForMonitoredFiles d (MarkExistingUSBFilesAsProcessed d s)) = sent s
   \<and> world (CheckUSBDriveForMonitoredFiles d (MarkExistingUSBFilesAsProcessed d s)) = world s
   \<and> pending (CheckUSBDriveForMonitoredFiles d (MarkExistingUSBFilesAsProcessed d s)) = pending s"
proof (cases "drive_ready (world s) d \<and> d @ bslash \<in> dirs (world s)")
  case False
  then have "CheckUSBDriveForMonitoredFiles d (MarkExistingUSBFilesAsProcessed d s)
             = MarkExistingUSBFilesAsProcessed d s"
    by (auto simp: CheckUSBDriveForMonitoredFiles_def Mark_frame)
  then show ?thesis
    by (simp add: Mark_frame)
next
  case True
  then have acc: "d \<in> accessible (world s)"
    by (simp add: drive_ready_def)
  have "\<forall>meta\<in>set (map snd (monitoredFiles s)). m_name meta \<in> files_on_drive (world s) d
          \<longrightarrow> currentUSBFileState (MarkExistingUSBFilesAsProcessed d s) (d @ '':'' @ m_name meta)
              = Some True"
    using Mark_state [OF acc] by auto
  from check_fold_marked [OF this] True show ?thesis
    by (simp add: CheckUSBDriveForMonitoredFiles_def Mark_frame)
qed

lemma first_detection:
  assumes gate: "allowEvents s"
    and now: "m_name meta \<in> currentFilesOnUSB"
    and before: "currentUSBFileState s (drivePath @ '':'' @ m_name meta) \<noteq> Some True"
    and pol: "applicable_policy (world s) meta (usbTransferPolicies s) = Some (policy, monitoredPath)"
    and act: "t_action policy = ''block'' \<or> t_action policy = ''quarantine''
              \<or> t_action policy = ''alert''"
    and root: "fs_exists (world s) (drivePath @ bslash @ m_name meta)"
    and src: "monitoredPath @ bslash @ relativePath meta \<notin> dirs (world s)"
    and vault: "(if t_quarantinePath policy = [] then quarantine_folder else t_quarantinePath policy)
                 \<noteq> monitoredPath @ bslash @ relativePath meta"
  shows "check_tracked_file drivePath currentFilesOnUSB s meta
           = execute_policy drivePath meta policy monitoredPath
               (s\<lparr>currentUSBFileState :=
                    (currentUSBFileState s)(drivePath @ '':'' @ m_name meta \<mapsto> True)\<rparr>)"
    and "\<exists>e. sent (check_tracked_file drivePath currentFilesOnUSB s meta) = sent s @ [e]
            \<and> map_of e ''event_subtype'' = Some (JStr ''usb_file_transfer'')
            \<and> map_of e ''policy_id'' = Some (JStr (t_policyId policy))"
    and "check_tracked_file drivePath currentFilesOnUSB
           (check_tracked_file drivePath currentFilesOnUSB s meta) meta
         = check_tracked_file drivePath currentFilesOnUSB s meta"
proof -
  let ?s1 = "s\<lparr>currentUSBFileState :=
                 (currentUSBFileState s)(drivePath @ '':'' @ m_name meta \<mapsto> True)\<rparr>"
  show run: "check_tracked_file drivePath currentFilesOnUSB s meta
           = execute_policy drivePath meta policy monitoredPath ?s1"
    using now before pol by (simp add: check_tracked_file_def Let_def)
  from execute_policy_sent [of ?s1 drivePath meta monitoredPath policy] gate root src vault act
  obtain a ok n where "sent (execute_policy drivePath meta policy monitoredPath ?s1)
      = sent s @ [transfer_envelope (relativePath meta) (drivePath @ bslash @ m_name meta)
                    monitoredPath a policy ok n]"
    by auto
  with run show "\<exists>e. sent (check_tracked_file drivePath currentFilesOnUSB s meta) = sent s @ [e]
            \<and> map_of e ''event_subtype'' = Some (JStr ''usb_file_transfer'')
            \<and> map_of e ''policy_id'' = Some (JStr (t_policyId policy))"
    by (simp add: transfer_envelope_def)
  have "currentUSBFileState (check_tracked_file drivePath currentFilesOnUSB s meta)
          (drivePath @ '':'' @ m_name meta) = Some True"
    by (simp add: run execute_policy_state)
  with now show "check_tracked_file drivePath currentFilesOnUSB
           (check_tracked_file drivePath currentFilesOnUSB s meta) meta
         = check_tracked_file drivePath currentFilesOnUSB s meta"
    by (simp add: check_tracked_file_def [of _ _ "check_tracked_file drivePath currentFilesOnUSB s meta"]
        Let_def)
qed

text \<open>Any other action only marks the file present.\<close>

lemma unlisted_action_runs_nothing:
  assumes "m_name meta \<in> currentFilesOnUSB"
    and "currentUSBFileState s (drivePath @ '':'' @ m_name meta) \<noteq> Some True"
    and "applicable_policy (world s) meta (usbTransferPolicies s) = Some (policy, monitoredPath)"
    and "t_action policy \<noteq> ''block''" and "t_action policy \<noteq> ''quarantine''"
    and "t_action policy \<noteq> ''alert''"
  shows "check_tracked_file drivePath currentFilesOnUSB s meta
         = s\<lparr>currentUSBFileState :=
               (currentUSBFileState s)(drivePath @ '':'' @ m_name meta \<mapsto> True)\<rparr>"
  using assms by (simp add: check_tracked_file_def execute_policy_def Let_def)

text \<open>
  C6.  A tracked file that is on the drive now and was not marked present before, under a
  first applicable rule whose action is \<open>block\<close>, \<open>quarantine\<close> or \<open>alert\<close>, with the file at
  the root of the drive, the source path not a directory and not the quarantine directory:
  the action of that rule runs on the state with the file marked present, exactly one
  event is sent, with subtype \<open>usb_file_transfer\<close> and the identifier of the rule, and a
  second check of the same file changes nothing.  And the check of a drive right after its
  sweep sends nothing, leaves the file system alone and schedules nothing.
\<close>

theorem new_transfer_enforced_once:
  "(allowEvents s
    \<and> m_name meta \<in> currentFilesOnUSB
    \<and> currentUSBFileState s (drivePath @ '':'' @ m_name meta) \<noteq> Some True
    \<and> applicable_policy (world s) meta (usbTransferPolicies s) = Some (policy, monitoredPath)
    \<and> (t_action policy = ''block'' \<or> t_action policy = ''quarantine''
         \<or> t_action policy = ''alert'')
    \<and> fs_exists (world s) (drivePath @ bslash @ m_name meta)
    \<and> monitoredPath @ bslash @ relativePath meta \<notin> dirs (world s)
    \<and> (if t_quarantinePath policy = [] then quarantine_folder else t_quarantinePath policy)
         \<noteq> monitoredPath @ bslash @ relativePath meta
    \<longrightarrow> check_tracked_file drivePath currentFilesOnUSB s meta
           = execute_policy drivePath meta policy monitoredPath
               (s\<lparr>currentUSBFileState :=
                    (currentUSBFileState s)(drivePath @ '':'' @ m_name meta \<mapsto> True)\<rparr>)
       \<and> (\<exists>e. sent (check_tracked_file drivePath currentFilesOnUSB s meta) = sent s @ [e]
              \<and> map_of e ''event_subtype'' = Some (JStr ''usb_file_transfer'')
              \<and> map_of e ''policy_id'' = Some (JStr (t_policyId policy)))
       \<and> check_tracked_file drivePath currentFilesOnUSB
           (check_tracked_file drivePath currentFilesOnUSB s meta) meta
         = check_tracked_file drivePath currentFilesOnUSB s meta)
   \<and> sent (CheckUSBDriveForMonitoredFiles d (MarkExistingUSBFilesAsProcessed d t)) = sent t
   \<and> world (CheckUSBDriveForMonitoredFiles d (MarkExistingUSBFilesAsProcessed d t)) = world t
   \<and> pending (CheckUSBDriveForMonitoredFiles d (MarkExistingUSBFilesAsProcessed d t)) = pending t"
  using first_detection [of s meta currentFilesOnUSB drivePath policy monitoredPath]
    sweep_then_check [of d t]
  by blast

lemmas round_defs = UsbFileTransferMonitor_round_def CheckUSBDriveForMonitoredFiles_def
  check_tracked_file_def drive_ready_def files_on_drive_def matched_path_def execute_policy_def
  HandleUSBFileTransferBlock_def HandleUSBFileTransferAlert_def SendUSBTransferEvent_def
  SendEvent_def transfer_envelope_def fs_remove_def map_erase_def
  transfer_agent_def transfer_world_def nested_world_def notes_meta_def

text \<open>
  The tracked file copied to the root of the drive under a rule whose action is \<open>log\<close>:
  the round marks the file present, sends nothing and leaves the copy on the drive.
\<close>

theorem log_rule_transfer_counterexample:
  "t_enabled (rule_transfer ''log'')
   \<and> applicable_policy transfer_world notes_meta [rule_transfer ''log'']
       = Some (rule_transfer ''log'', ''C:'' @ bslash @ ''Watched'')
   \<and> allowEvents (transfer_agent ''log'' transfer_world)
   \<and> currentUSBFileState (transfer_agent ''log'' transfer_world) (usb_drive @ '':notes.txt'') = None
   \<and> currentUSBFileState (UsbFileTransferMonitor_round (transfer_agent ''log'' transfer_world))
        (usb_drive @ '':notes.txt'') = Some True
   \<and> sent (UsbFileTransferMonitor_round (transfer_agent ''log'' transfer_world)) = []
   \<and> world (UsbFileTransferMonitor_round (transfer_agent ''log'' transfer_world)) = transfer_world"
  by (simp add: round_defs transfer_defs)

text \<open>
  The tracked file copied into a directory of the drive under a \<open>block\<close> rule: the scan
  finds it by name, the handler looks for it at the root of the drive only.
\<close>

lemma nested_transfer_is_missed:
  "applicable_policy nested_world notes_meta [rule_transfer ''block'']
       = Some (rule_transfer ''block'', ''C:'' @ bslash @ ''Watched'')
   \<and> currentUSBFileState (transfer_agent ''block'' nested_world) (usb_drive @ '':notes.txt'') = None
   \<and> currentUSBFileState (UsbFileTransferMonitor_round (transfer_agent ''block'' nested_world))
        (usb_drive @ '':notes.txt'') = Some True
   \<and> sent (UsbFileTransferMonitor_round (transfer_agent ''block'' nested_world)) = []
   \<and> world (UsbFileTransferMonitor_round (transfer_agent ''block'' nested_world)) = nested_world"
  by (simp add: round_defs transfer_defs)

theorem new_transfer_enforced_once_witness:
  "allowEvents (transfer_agent ''block'' transfer_world)
   \<and> m_name notes_meta \<in> {''notes.txt''}
   \<and> currentUSBFileState (transfer_agent ''block'' transfer_world)
        (usb_drive @ '':'' @ m_name notes_meta) \<noteq> Some True
   \<and> applicable_policy (world (transfer_agent ''block'' transfer_world)) notes_meta
        (usbTransferPolicies (transfer_agent ''block'' transfer_world))
       = Some (rule_transfer ''block'', ''C:'' @ bslash @ ''Watched'')
   \<and> t_action (rule_transfer ''block'') = ''block''
   \<and> fs_exists (world (transfer_agent ''block'' transfer_world))
        (usb_drive @ bslash @ m_name notes_meta)
   \<and> (''C:'' @ bslash @ ''Watched'') @ bslash @ relativePath notes_meta
        \<notin> dirs (world (transfer_agent ''block'' transfer_world))
   \<and> length (sent (check_tracked_file usb_drive {''notes.txt''}
        (transfer_agent ''block'' transfer_world) notes_meta)) = 1
   \<and> map_of (hd (sent (check_tracked_file usb_drive {''notes.txt''}
        (transfer_agent ''block'' transfer_world) notes_meta))) ''event_subtype''
       = Some (JStr ''usb_file_transfer'')
   \<and> map_of (hd (sent (check_tracked_file usb_drive {''notes.txt''}
        (transfer_agent ''block'' transfer_world) notes_meta))) ''action''
       = Some (JStr ''blocked_copy'')
   \<and> fs_lookup (world (check_tracked_file usb_drive {''notes.txt''}
        (transfer_agent ''block'' transfer_world) notes_meta)) (usb_drive @ bslash @ ''notes.txt'')
       = None"
proof -
  have e: "allowEvents (transfer_agent ''block'' transfer_world)
   \<and> m_name notes_meta \<in> {''notes.txt''}
   \<and> currentUSBFileState (transfer_agent ''block'' transfer_world)
        (usb_drive @ '':'' @ m_name notes_meta) \<noteq> Some True
   \<and> applicable_policy (world (transfer_agent ''block'' transfer_world)) notes_meta
        (usbTransferPolicies (transfer_agent ''block'' transfer_world))
       = Some (rule_transfer ''block'', ''C:'' @ bslash @ ''Watched'')
   \<and> (t_action (rule_transfer ''block'') = ''block''
        \<or> t_action (rule_transfer ''block'') = ''quarantine''
        \<or> t_action (rule_transfer ''block'') = ''alert'')
   \<and> fs_exists (world (transfer_agent ''block'' transfer_world))
        (usb_drive @ bslash @ m_name notes_meta)
   \<and> (''C:'' @ bslash @ ''Watched'') @ bslash @ relativePath notes_meta
        \<notin> dirs (world (transfer_agent ''block'' transfer_world))
   \<and> (if t_quarantinePath (rule_transfer ''block'') = [] then quarantine_folder
       else t_quarantinePath (rule_transfer ''block''))
        \<noteq> (''C:'' @ bslash @ ''Watched'') @ bslash @ relativePath notes_meta"
    by (simp add: round_defs transfer_defs)
  have v: "map_of (hd (sent (check_tracked_file usb_drive {''notes.txt''}
        (transfer_agent ''block'' transfer_world) notes_meta))) ''action''
       = Some (JStr ''blocked_copy'')
     \<and> fs_lookup (world (check_tracked_file usb_drive {''notes.txt''}
        (transfer_agent ''block'' transfer_world) notes_meta)) (usb_drive @ bslash @ ''notes.txt'')
       = None"
    by (simp add: round_defs transfer_defs)
  from new_transfer_enforced_once [of "transfer_agent ''block'' transfer_world" notes_meta
      "{''notes.txt''}" usb_drive "rule_transfer ''block''" "''C:'' @ bslash @ ''Watched''"] e
  have "\<exists>e. sent (check_tracked_file usb_drive {''notes.txt''}
          (transfer_agent ''block'' transfer_world) notes_meta)
        = sent (transfer_agent ''block'' transfer_world) @ [e]
        \<and> map_of e ''event_subtype'' = Some (JStr ''usb_file_transfer'')"
    by blast
  moreover have "sent (transfer_agent ''block'' transfer_world) = []"
    by (simp add: round_defs transfer_defs)
  ultimately obtain x where
    x: "sent (check_tracked_file usb_drive {''notes.txt''}
          (transfer_agent ''block'' transfer_world) notes_meta) = [x]"
      "map_of x ''event_subtype'' = Some (JStr ''usb_file_transfer'')"
    by auto
  have t: "t_action (rule_transfer ''block'') = ''block''"
    by (simp add: rule_transfer_def)
  have n: "m_name notes_meta = ''notes.txt''"
    by (simp add: notes_meta_def)
  from e v show ?thesis
    by (simp add: x t n)
qed

end
